theory Spec2Isabelle
  imports Main "HOL-Library.Word" "HOL-Library.AList"
begin

section \<open>vectorbt.utils: magic-method decorators and image stacking\<close>

text \<open>
  A shallow embedding of \<^verbatim>\<open>vectorbt/utils/magic_decorators.py\<close> and of the two
  stacking functions of \<^verbatim>\<open>vectorbt/utils/image_.py\<close>.

  Python objects that the decorators only pass around (\<^verbatim>\<open>self\<close>, \<^verbatim>\<open>other\<close>) have the
  type \<open>'s\<close>, array-like operands of NumPy's functions the type \<open>'a\<close>, and the result of
  a translation function the type \<open>'r\<close> (which may itself be a sum, for a translation
  function that raises).
\<close>

subsection \<open>Exceptions\<close>

datatype py_error =
    KeyError string
  | AttributeError string
  | TypeError string
  | ValueError string

subsection \<open>NumPy's elementwise functions\<close>

text \<open>
  NumPy is not part of the repository: the functions the two catalogs refer to are a
  parameter of the model, one field for each function named in the source.
\<close>

record 'a numpy =
  np_equal :: "'a \<Rightarrow> 'a \<Rightarrow> 'a"
  np_not_equal :: "'a \<Rightarrow> 'a \<Rightarrow> 'a"
  np_less :: "'a \<Rightarrow> 'a \<Rightarrow> 'a"
  np_greater :: "'a \<Rightarrow> 'a \<Rightarrow> 'a"
  np_less_equal :: "'a \<Rightarrow> 'a \<Rightarrow> 'a"
  np_greater_equal :: "'a \<Rightarrow> 'a \<Rightarrow> 'a"
  np_add :: "'a \<Rightarrow> 'a \<Rightarrow> 'a"
  np_subtract :: "'a \<Rightarrow> 'a \<Rightarrow> 'a"
  np_multiply :: "'a \<Rightarrow> 'a \<Rightarrow> 'a"
  np_power :: "'a \<Rightarrow> 'a \<Rightarrow> 'a"
  np_mod :: "'a \<Rightarrow> 'a \<Rightarrow> 'a"
  np_floor_divide :: "'a \<Rightarrow> 'a \<Rightarrow> 'a"
  np_true_divide :: "'a \<Rightarrow> 'a \<Rightarrow> 'a"
  np_bitwise_and :: "'a \<Rightarrow> 'a \<Rightarrow> 'a"
  np_bitwise_or :: "'a \<Rightarrow> 'a \<Rightarrow> 'a"
  np_bitwise_xor :: "'a \<Rightarrow> 'a \<Rightarrow> 'a"
  np_negative :: "'a \<Rightarrow> 'a"
  np_positive :: "'a \<Rightarrow> 'a"
  np_absolute :: "'a \<Rightarrow> 'a"
  np_invert :: "'a \<Rightarrow> 'a"

subsection \<open>Catalogs\<close>

text \<open>
  A catalog is a \<^verbatim>\<open>Config\<close>, a dictionary: its items are kept in insertion order, as
  \<^verbatim>\<open>config.items()\<close> yields them. The value of each item is the dictionary of settings
  \<^verbatim>\<open>dict(func=...)\<close>. The two flags are the keyword arguments the source passes.
\<close>

type_synonym 'f settings = "string \<rightharpoonup> 'f"

record 'f config =
  config_items :: "(string \<times> 'f settings) list"
  readonly :: bool
  as_attrs :: bool

text \<open>The dictionary built by \<^verbatim>\<open>dict(func=f)\<close>.\<close>

definition dict_func :: "'f \<Rightarrow> 'f settings" where
  "dict_func f = [''func'' \<mapsto> f]"

definition binary_magic_config :: "'a numpy \<Rightarrow> ('a \<Rightarrow> 'a \<Rightarrow> 'a) config" where
  "binary_magic_config np = \<lparr>
     config_items = [
       (''__eq__'', dict_func (np_equal np)),
       (''__ne__'', dict_func (np_not_equal np)),
       (''__lt__'', dict_func (np_less np)),
       (''__gt__'', dict_func (np_greater np)),
       (''__le__'', dict_func (np_less_equal np)),
       (''__ge__'', dict_func (np_greater_equal np)),
       (''__add__'', dict_func (np_add np)),
       (''__sub__'', dict_func (np_subtract np)),
       (''__mul__'', dict_func (np_multiply np)),
       (''__pow__'', dict_func (np_power np)),
       (''__mod__'', dict_func (np_mod np)),
       (''__floordiv__'', dict_func (np_floor_divide np)),
       (''__truediv__'', dict_func (np_true_divide np)),
       (''__radd__'', dict_func (\<lambda>x y. np_add np y x)),
       (''__rsub__'', dict_func (\<lambda>x y. np_subtract np y x)),
       (''__rmul__'', dict_func (\<lambda>x y. np_multiply np y x)),
       (''__rpow__'', dict_func (\<lambda>x y. np_power np y x)),
       (''__rmod__'', dict_func (\<lambda>x y. np_mod np y x)),
       (''__rfloordiv__'', dict_func (\<lambda>x y. np_floor_divide np y x)),
       (''__rtruediv__'', dict_func (\<lambda>x y. np_true_divide np y x)),
       (''__and__'', dict_func (np_bitwise_and np)),
       (''__or__'', dict_func (np_bitwise_or np)),
       (''__xor__'', dict_func (np_bitwise_xor np)),
       (''__rand__'', dict_func (\<lambda>x y. np_bitwise_and np y x)),
       (''__ror__'', dict_func (\<lambda>x y. np_bitwise_or np y x)),
       (''__rxor__'', dict_func (\<lambda>x y. np_bitwise_xor np y x))],
     readonly = True,
     as_attrs = False \<rparr>"

definition unary_magic_config :: "'a numpy \<Rightarrow> ('a \<Rightarrow> 'a) config" where
  "unary_magic_config np = \<lparr>
     config_items = [
       (''__neg__'', dict_func (np_negative np)),
       (''__pos__'', dict_func (np_positive np)),
       (''__abs__'', dict_func (np_absolute np)),
       (''__invert__'', dict_func (np_invert np))],
     readonly = True,
     as_attrs = False \<rparr>"

subsection \<open>Function objects and classes\<close>

text \<open>
  \<^verbatim>\<open>new_method\<close> is a function object. What the source gives it is recorded: its
  \<^verbatim>\<open>__name__\<close>, its \<^verbatim>\<open>__qualname__\<close>, and the default values of the parameters
  \<^verbatim>\<open>_translate_func\<close> and \<^verbatim>\<open>_func\<close>, which Python evaluates once, when the
  \<^verbatim>\<open>def\<close> statement runs in that iteration of the loop.
\<close>

record ('s, 'a, 'r) binary_method =
  bm_name :: string
  bm_qualname :: string
  bm_translate_func :: "'s \<Rightarrow> 's \<Rightarrow> ('a \<Rightarrow> 'a \<Rightarrow> 'a) \<Rightarrow> 'r"
  bm_func :: "'a \<Rightarrow> 'a \<Rightarrow> 'a"

record ('s, 'a, 'r) unary_method =
  um_name :: string
  um_qualname :: string
  um_translate_func :: "'s \<Rightarrow> ('a \<Rightarrow> 'a) \<Rightarrow> 'r"
  um_func :: "'a \<Rightarrow> 'a"

text \<open>
  Calling \<^verbatim>\<open>new_method(self, other[, _translate_func[, _func]])\<close>: a parameter that the
  caller leaves out (\<open>None\<close> here) takes its default value.
\<close>

definition call_binary ::
  "('s, 'a, 'r) binary_method \<Rightarrow> 's \<Rightarrow> 's \<Rightarrow>
   ('s \<Rightarrow> 's \<Rightarrow> ('a \<Rightarrow> 'a \<Rightarrow> 'a) \<Rightarrow> 'r) option \<Rightarrow> ('a \<Rightarrow> 'a \<Rightarrow> 'a) option \<Rightarrow> 'r" where
  "call_binary m self other translate_arg func_arg =
     (let translate_func' = (case translate_arg of None \<Rightarrow> bm_translate_func m | Some g \<Rightarrow> g);
          func' = (case func_arg of None \<Rightarrow> bm_func m | Some f \<Rightarrow> f)
      in translate_func' self other func')"

definition call_unary ::
  "('s, 'a, 'r) unary_method \<Rightarrow> 's \<Rightarrow>
   ('s \<Rightarrow> ('a \<Rightarrow> 'a) \<Rightarrow> 'r) option \<Rightarrow> ('a \<Rightarrow> 'a) option \<Rightarrow> 'r" where
  "call_unary m self translate_arg func_arg =
     (let translate_func' = (case translate_arg of None \<Rightarrow> um_translate_func m | Some g \<Rightarrow> g);
          func' = (case func_arg of None \<Rightarrow> um_func m | Some f \<Rightarrow> f)
      in translate_func' self func')"

text \<open>
  A class: its \<^verbatim>\<open>__name__\<close> and its attribute dictionary. An attribute is a method
  installed by one of the two decorators, or some other value the class already had (one
  that cannot be called).

  A type object does not let every name be assigned: for \<^verbatim>\<open>__name__\<close>, \<^verbatim>\<open>__bases__\<close>
  or \<^verbatim>\<open>__mro__\<close>, say, or for any name of a built-in type, \<^verbatim>\<open>setattr\<close> raises
  \<^verbatim>\<open>TypeError\<close> or \<^verbatim>\<open>AttributeError\<close> and the class stays as it was. Which names
  those are is Python's affair and not the repository's: \<open>cls_guard\<close> gives, for each
  name, the exception raised when a function is assigned to it, if one is.
\<close>

datatype ('s, 'a, 'r) attr =
    BinaryMethod "('s, 'a, 'r) binary_method"
  | UnaryMethod "('s, 'a, 'r) unary_method"
  | Other 's

record ('s, 'a, 'r) pyclass =
  cls_name :: string
  cls_attrs :: "string \<rightharpoonup> ('s, 'a, 'r) attr"
  cls_guard :: "string \<Rightarrow> py_error option"

definition setattr ::
  "('s, 'a, 'r) pyclass \<Rightarrow> string \<Rightarrow> ('s, 'a, 'r) attr \<Rightarrow> py_error + ('s, 'a, 'r) pyclass" where
  "setattr cls target_name v =
     (case cls_guard cls target_name of
        Some e \<Rightarrow> Inl e
      | None \<Rightarrow> Inr (cls\<lparr>cls_attrs := (cls_attrs cls)(target_name \<mapsto> v)\<rparr>))"

subsection \<open>The decorators\<close>

text \<open>
  \<^verbatim>\<open>wrapper(cls)\<close> changes the class in place and may raise in the middle of its loop:
  \<^verbatim>\<open>settings['func']\<close> is a \<^verbatim>\<open>KeyError\<close> when the key is missing, and
  \<^verbatim>\<open>setattr\<close> raises for a name the class does not let be assigned. The model returns
  the class as the call leaves it, together with the exception raised, if any.
\<close>

fun binary_wrapper_loop ::
  "('s \<Rightarrow> 's \<Rightarrow> ('a \<Rightarrow> 'a \<Rightarrow> 'a) \<Rightarrow> 'r) \<Rightarrow> (string \<times> ('a \<Rightarrow> 'a \<Rightarrow> 'a) settings) list \<Rightarrow>
   ('s, 'a, 'r) pyclass \<Rightarrow> ('s, 'a, 'r) pyclass \<times> py_error option" where
  "binary_wrapper_loop translate_func [] cls = (cls, None)"
| "binary_wrapper_loop translate_func ((target_name, settings) # rest) cls =
     (case settings ''func'' of
        None \<Rightarrow> (cls, Some (KeyError ''func''))
      | Some func \<Rightarrow>
          (let new_method = \<lparr>
                 bm_name = target_name,
                 bm_qualname = cls_name cls @ ''.'' @ target_name,
                 bm_translate_func = translate_func,
                 bm_func = func \<rparr>
           in case setattr cls target_name (BinaryMethod new_method) of
                Inl e \<Rightarrow> (cls, Some e)
              | Inr cls' \<Rightarrow> binary_wrapper_loop translate_func rest cls'))"

definition binary_wrapper ::
  "('s \<Rightarrow> 's \<Rightarrow> ('a \<Rightarrow> 'a \<Rightarrow> 'a) \<Rightarrow> 'r) \<Rightarrow> ('a \<Rightarrow> 'a \<Rightarrow> 'a) config \<Rightarrow>
   ('s, 'a, 'r) pyclass \<Rightarrow> ('s, 'a, 'r) pyclass \<times> py_error option" where
  "binary_wrapper translate_func config cls =
     binary_wrapper_loop translate_func (config_items config) cls"

fun unary_wrapper_loop ::
  "('s \<Rightarrow> ('a \<Rightarrow> 'a) \<Rightarrow> 'r) \<Rightarrow> (string \<times> ('a \<Rightarrow> 'a) settings) list \<Rightarrow>
   ('s, 'a, 'r) pyclass \<Rightarrow> ('s, 'a, 'r) pyclass \<times> py_error option" where
  "unary_wrapper_loop translate_func [] cls = (cls, None)"
| "unary_wrapper_loop translate_func ((target_name, settings) # rest) cls =
     (case settings ''func'' of
        None \<Rightarrow> (cls, Some (KeyError ''func''))
      | Some func \<Rightarrow>
          (let new_method = \<lparr>
                 um_name = target_name,
                 um_qualname = cls_name cls @ ''.'' @ target_name,
                 um_translate_func = translate_func,
                 um_func = func \<rparr>
           in case setattr cls target_name (UnaryMethod new_method) of
                Inl e \<Rightarrow> (cls, Some e)
              | Inr cls' \<Rightarrow> unary_wrapper_loop translate_func rest cls'))"

definition unary_wrapper ::
  "('s \<Rightarrow> ('a \<Rightarrow> 'a) \<Rightarrow> 'r) \<Rightarrow> ('a \<Rightarrow> 'a) config \<Rightarrow>
   ('s, 'a, 'r) pyclass \<Rightarrow> ('s, 'a, 'r) pyclass \<times> py_error option" where
  "unary_wrapper translate_func config cls =
     unary_wrapper_loop translate_func (config_items config) cls"

text \<open>
  The two factories. Their bodies choose the catalog and return \<^verbatim>\<open>wrapper\<close>; the result
  is a sum so that a factory that raised would be \<open>Inl\<close>. The default catalog is a global
  of the module, read when the factory runs: its value is the first argument here.
\<close>

definition attach_binary_magic_methods ::
  "('a \<Rightarrow> 'a \<Rightarrow> 'a) config \<Rightarrow> ('s \<Rightarrow> 's \<Rightarrow> ('a \<Rightarrow> 'a \<Rightarrow> 'a) \<Rightarrow> 'r) \<Rightarrow>
   ('a \<Rightarrow> 'a \<Rightarrow> 'a) config option \<Rightarrow>
   py_error + (('s, 'a, 'r) pyclass \<Rightarrow> ('s, 'a, 'r) pyclass \<times> py_error option)" where
  "attach_binary_magic_methods global_binary_magic_config translate_func config =
     (let config' = (case config of None \<Rightarrow> global_binary_magic_config | Some c \<Rightarrow> c)
      in Inr (binary_wrapper translate_func config'))"

definition attach_unary_magic_methods ::
  "('a \<Rightarrow> 'a) config \<Rightarrow> ('s \<Rightarrow> ('a \<Rightarrow> 'a) \<Rightarrow> 'r) \<Rightarrow> ('a \<Rightarrow> 'a) config option \<Rightarrow>
   py_error + (('s, 'a, 'r) pyclass \<Rightarrow> ('s, 'a, 'r) pyclass \<times> py_error option)" where
  "attach_unary_magic_methods global_unary_magic_config translate_func config =
     (let config' = (case config of None \<Rightarrow> global_unary_magic_config | Some c \<Rightarrow> c)
      in Inr (unary_wrapper translate_func config'))"

text \<open>
  Using an operator on an instance looks the method up on the instance's class and calls
  it with the instance and the operand, \<^verbatim>\<open>type(self).target_name(self, other)\<close>. What
  Python does next when a method returns \<^verbatim>\<open>NotImplemented\<close> (it tries the operand's
  reflected method) is a matter of the translation function's result and is not modelled.
\<close>

definition invoke_binary ::
  "('s, 'a, 'r) pyclass \<Rightarrow> string \<Rightarrow> 's \<Rightarrow> 's \<Rightarrow> py_error + 'r" where
  "invoke_binary cls target_name self other =
     (case cls_attrs cls target_name of
        None \<Rightarrow> Inl (AttributeError target_name)
      | Some (BinaryMethod m) \<Rightarrow> Inr (call_binary m self other None None)
      | Some _ \<Rightarrow> Inl (TypeError target_name))"

definition invoke_unary ::
  "('s, 'a, 'r) pyclass \<Rightarrow> string \<Rightarrow> 's \<Rightarrow> py_error + 'r" where
  "invoke_unary cls target_name self =
     (case cls_attrs cls target_name of
        None \<Rightarrow> Inl (AttributeError target_name)
      | Some (UnaryMethod m) \<Rightarrow> Inr (call_unary m self None None)
      | Some _ \<Rightarrow> Inl (TypeError target_name))"

text \<open>
  Reading a combination function out of a catalog, \<^verbatim>\<open>config[name]['func']\<close>.
\<close>

definition getitem_func :: "'f config \<Rightarrow> string \<Rightarrow> py_error + 'f" where
  "getitem_func config name =
     (case map_of (config_items config) name of
        None \<Rightarrow> Inl (KeyError name)
      | Some settings \<Rightarrow>
          (case settings ''func'' of
             None \<Rightarrow> Inl (KeyError ''func'')
           | Some f \<Rightarrow> Inr f))"

text \<open>
  Applying an entry's combination function, \<^verbatim>\<open>config[name]['func'](x, y)\<close>.
\<close>

definition call_func :: "('a \<Rightarrow> 'a \<Rightarrow> 'a) config \<Rightarrow> string \<Rightarrow> 'a \<Rightarrow> 'a \<Rightarrow> py_error + 'a" where
  "call_func config name x y =
     (case getitem_func config name of
        Inl e \<Rightarrow> Inl e
      | Inr f \<Rightarrow> Inr (f x y))"

subsection \<open>Mutating a catalog\<close>

text \<open>
  Modelled from the spec: the class \<^verbatim>\<open>Config\<close> of \<^verbatim>\<open>vectorbt.utils.config\<close> is not
  among the sources. The spec says of a catalog that it "is read-only after construction;
  attempting mutation fails". Setting an item (a new key, or the replacement of an entry)
  fails when the catalog was built with \<^verbatim>\<open>readonly=True\<close>; otherwise it is a dictionary's
  assignment, which keeps the position of a key that exists and appends a new one.
\<close>

definition config_setitem :: "'f config \<Rightarrow> string \<Rightarrow> 'f settings \<Rightarrow> py_error + 'f config" where
  "config_setitem config k v =
     (if readonly config then Inl (TypeError ''Config is read-only'')
      else Inr (config\<lparr>config_items := AList.update k v (config_items config)\<rparr>))"

text \<open>
  Modelled from the spec: the class \<^verbatim>\<open>Config\<close> of \<^verbatim>\<open>vectorbt.utils.config\<close> is not
  among the sources. Deleting an item fails on a read-only catalog, as "attempting
  mutation fails"; otherwise it is a dictionary's deletion, a \<^verbatim>\<open>KeyError\<close> for a key
  that is not there.
\<close>

definition config_delitem :: "'f config \<Rightarrow> string \<Rightarrow> py_error + 'f config" where
  "config_delitem config k =
     (if readonly config then Inl (TypeError ''Config is read-only'')
      else if k \<in> set (map fst (config_items config))
      then Inr (config\<lparr>config_items := AList.delete k (config_items config)\<rparr>)
      else Inl (KeyError k))"

subsection \<open>A module's objects under a sequence of decorations\<close>

text \<open>
  The objects a decoration can reach: the two built-in catalogs of the module and the
  class being decorated. One decoration, \<^verbatim>\<open>attach_..._magic_methods(translate_func,
  config)(cls)\<close>, calls the factory and then the wrapper it returned; whatever the wrapper
  did to the class before an exception stays done.
\<close>

record ('s, 'a, 'r) objects =
  obj_binary_magic_config :: "('a \<Rightarrow> 'a \<Rightarrow> 'a) config"
  obj_unary_magic_config :: "('a \<Rightarrow> 'a) config"
  obj_cls :: "('s, 'a, 'r) pyclass"

datatype ('s, 'a, 'r) decoration =
    AttachBinary "'s \<Rightarrow> 's \<Rightarrow> ('a \<Rightarrow> 'a \<Rightarrow> 'a) \<Rightarrow> 'r" "('a \<Rightarrow> 'a \<Rightarrow> 'a) config option"
  | AttachUnary "'s \<Rightarrow> ('a \<Rightarrow> 'a) \<Rightarrow> 'r" "('a \<Rightarrow> 'a) config option"

fun decorate ::
  "('s, 'a, 'r) objects \<Rightarrow> ('s, 'a, 'r) decoration \<Rightarrow> ('s, 'a, 'r) objects" where
  "decorate st (AttachBinary translate_func config) =
     (case attach_binary_magic_methods (obj_binary_magic_config st) translate_func config of
        Inl e \<Rightarrow> st
      | Inr wrapper \<Rightarrow> st\<lparr>obj_cls := fst (wrapper (obj_cls st))\<rparr>)"
| "decorate st (AttachUnary translate_func config) =
     (case attach_unary_magic_methods (obj_unary_magic_config st) translate_func config of
        Inl e \<Rightarrow> st
      | Inr wrapper \<Rightarrow> st\<lparr>obj_cls := fst (wrapper (obj_cls st))\<rparr>)"

definition decorate_all ::
  "('s, 'a, 'r) objects \<Rightarrow> ('s, 'a, 'r) decoration list \<Rightarrow> ('s, 'a, 'r) objects" where
  "decorate_all st ds = foldl decorate st ds"

subsection \<open>Image arrays\<close>

text \<open>
  A NumPy array with three axes: its shape and its elements. Only the elements at indices
  inside the shape belong to the array; \<open>at\<close> reads one of them.
\<close>

record 'e array3d =
  shape_h :: nat
  shape_w :: nat
  shape_d :: nat
  elems :: "nat \<Rightarrow> nat \<Rightarrow> nat \<Rightarrow> 'e"

definition at :: "'e array3d \<Rightarrow> nat \<Rightarrow> nat \<Rightarrow> nat \<Rightarrow> 'e option" where
  "at arr i j k =
     (if i < shape_h arr \<and> j < shape_w arr \<and> k < shape_d arr
      then Some (elems arr i j k) else None)"

text \<open>\<^verbatim>\<open>np.full((h, w, d), v, dtype)\<close>.\<close>

definition np_full :: "nat \<Rightarrow> nat \<Rightarrow> nat \<Rightarrow> 'e \<Rightarrow> 'e array3d" where
  "np_full h w d v = \<lparr>shape_h = h, shape_w = w, shape_d = d, elems = (\<lambda>i j k. v)\<rparr>"

text \<open>
  The assignment \<^verbatim>\<open>c[r0:r1, c0:c1, :] = v\<close>. The bounds of a slice are clipped to the
  shape of \<open>c\<close>. The value is broadcast to the shape of the slice: on each axis its
  length is the slice's or 1, or NumPy raises \<^verbatim>\<open>ValueError\<close>. Each element is converted
  to the element type of \<open>c\<close> by \<open>astype\<close>.
\<close>

definition setitem_block ::
  "('e \<Rightarrow> 'u) \<Rightarrow> 'u array3d \<Rightarrow> nat \<Rightarrow> nat \<Rightarrow> nat \<Rightarrow> nat \<Rightarrow> 'e array3d \<Rightarrow> py_error + 'u array3d" where
  "setitem_block astype c r0 r1 c0 c1 v =
     (let rs = min r0 (shape_h c); nr = min r1 (shape_h c) - rs;
          cs = min c0 (shape_w c); nc = min c1 (shape_w c) - cs;
          d = shape_d c
      in if (shape_h v = nr \<or> shape_h v = 1) \<and> (shape_w v = nc \<or> shape_w v = 1)
            \<and> (shape_d v = d \<or> shape_d v = 1)
         then Inr (c\<lparr>elems := (\<lambda>i j k.
                if rs \<le> i \<and> i < rs + nr \<and> cs \<le> j \<and> j < cs + nc \<and> k < d
                then astype (elems v (if shape_h v = 1 then 0 else i - rs)
                                     (if shape_w v = 1 then 0 else j - cs)
                                     (if shape_d v = 1 then 0 else k))
                else elems c i j k)\<rparr>)
         else Inl (ValueError ''could not broadcast input array''))"

text \<open>
  The two stacking functions. \<open>astype\<close> is NumPy's conversion of an element of the
  inputs to \<^verbatim>\<open>np.uint8\<close>, the element type of the result.
\<close>

definition hstack_image_arrays ::
  "('e \<Rightarrow> 8 word) \<Rightarrow> 'e array3d \<Rightarrow> 'e array3d \<Rightarrow> py_error + 8 word array3d" where
  "hstack_image_arrays astype a b =
     (let h1 = shape_h a; w1 = shape_w a; d = shape_d a;
          h2 = shape_h b; w2 = shape_w b;
          c = np_full (max h1 h2) (w1 + w2) d 255
      in case setitem_block astype c 0 h1 0 w1 a of
           Inl e \<Rightarrow> Inl e
         | Inr c' \<Rightarrow> setitem_block astype c' 0 h2 w1 (w1 + w2) b)"

definition vstack_image_arrays ::
  "('e \<Rightarrow> 8 word) \<Rightarrow> 'e array3d \<Rightarrow> 'e array3d \<Rightarrow> py_error + 8 word array3d" where
  "vstack_image_arrays astype a b =
     (let h1 = shape_h a; w1 = shape_w a; d = shape_d a;
          h2 = shape_h b; w2 = shape_w b;
          c = np_full (h1 + h2) (max w1 w2) d 255
      in case setitem_block astype c 0 h1 0 w1 a of
           Inl e \<Rightarrow> Inl e
         | Inr c' \<Rightarrow> setitem_block astype c' h1 (h1 + h2) 0 w2 b)"

section \<open>Properties\<close>

subsection \<open>The loop of the binary wrapper\<close>

lemma pyclass_eqI:
  fixes c c' :: "('s, 'a, 'r) pyclass"
  shows "cls_name c = cls_name c' \<Longrightarrow> cls_guard c = cls_guard c' \<Longrightarrow>
    (\<And>k. cls_attrs c k = cls_attrs c' k) \<Longrightarrow> c = c'"
  by (cases c, cases c') auto

lemma binary_wrapper_loop_name:
  "cls_name (fst (binary_wrapper_loop t xs cls)) = cls_name cls"
  by (induction xs arbitrary: cls)
     (auto simp: setattr_def Let_def split: option.splits sum.splits)

lemma binary_wrapper_loop_guard:
  "cls_guard (fst (binary_wrapper_loop t xs cls)) = cls_guard cls"
  by (induction xs arbitrary: cls)
     (auto simp: setattr_def Let_def split: option.splits sum.splits)

lemma binary_wrapper_loop_step:
  assumes "s ''func'' = Some f" and "cls_guard cls k = None"
  shows "binary_wrapper_loop t ((k, s) # xs) cls =
     binary_wrapper_loop t xs
       (cls\<lparr>cls_attrs := (cls_attrs cls)(k \<mapsto> BinaryMethod
          \<lparr>bm_name = k, bm_qualname = cls_name cls @ ''.'' @ k,
           bm_translate_func = t, bm_func = f\<rparr>)\<rparr>)"
  using assms by (simp add: setattr_def Let_def)

lemma binary_wrapper_loop_halt:
  assumes "s ''func'' = None \<or> cls_guard cls k \<noteq> None"
  shows "fst (binary_wrapper_loop t ((k, s) # xs) cls) = cls"
    and "snd (binary_wrapper_loop t ((k, s) # xs) cls) \<noteq> None"
  using assms by (auto simp: setattr_def Let_def split: option.splits)

lemma binary_wrapper_loop_guarded:
  assumes "s ''func'' = Some f" and "cls_guard cls k = Some e"
  shows "binary_wrapper_loop t ((k, s) # xs) cls = (cls, Some e)"
  using assms by (simp add: setattr_def Let_def)

lemma binary_wrapper_loop_frame:
  "k \<notin> fst ` set xs \<Longrightarrow> cls_attrs (fst (binary_wrapper_loop t xs cls)) k = cls_attrs cls k"
proof (induction xs arbitrary: cls)
  case Nil
  then show ?case by simp
next
  case (Cons x xs)
  obtain k' s where x: "x = (k', s)" by (cases x)
  show ?case
  proof (cases "s ''func'' = None \<or> cls_guard cls k' \<noteq> None")
    case True
    then show ?thesis unfolding x by (simp only: binary_wrapper_loop_halt(1))
  next
    case False
    then obtain f where f: "s ''func'' = Some f" and g: "cls_guard cls k' = None" by auto
    have step: "binary_wrapper_loop t ((k', s) # xs) cls =
      binary_wrapper_loop t xs (cls\<lparr>cls_attrs := (cls_attrs cls)(k' \<mapsto> BinaryMethod
          \<lparr>bm_name = k', bm_qualname = cls_name cls @ ''.'' @ k',
           bm_translate_func = t, bm_func = f\<rparr>)\<rparr>)"
      using f g by (rule binary_wrapper_loop_step)
    have "k \<noteq> k'" and "k \<notin> fst ` set xs" using Cons.prems x by auto
    then show ?thesis
      unfolding x step using Cons.IH by simp
  qed
qed

lemma binary_wrapper_loop_frame_installed:
  "k \<notin> fst ` set (takeWhile (\<lambda>(k, s). s ''func'' \<noteq> None \<and> cls_guard cls k = None) xs) \<Longrightarrow>
     cls_attrs (fst (binary_wrapper_loop t xs cls)) k = cls_attrs cls k"
proof (induction xs arbitrary: cls)
  case Nil
  then show ?case by simp
next
  case (Cons x xs)
  obtain k' s where x: "x = (k', s)" by (cases x)
  show ?case
  proof (cases "s ''func'' = None \<or> cls_guard cls k' \<noteq> None")
    case True
    then show ?thesis unfolding x by (simp only: binary_wrapper_loop_halt(1))
  next
    case False
    then obtain f where f: "s ''func'' = Some f" and g: "cls_guard cls k' = None" by auto
    let ?cls' = "cls\<lparr>cls_attrs := (cls_attrs cls)(k' \<mapsto> BinaryMethod
          \<lparr>bm_name = k', bm_qualname = cls_name cls @ ''.'' @ k',
           bm_translate_func = t, bm_func = f\<rparr>)\<rparr>"
    have "k \<noteq> k'"
      and "k \<notin> fst ` set (takeWhile (\<lambda>(k, s). s ''func'' \<noteq> None \<and> cls_guard ?cls' k = None) xs)"
      using Cons.prems x f g by auto
    moreover have step: "binary_wrapper_loop t ((k', s) # xs) cls = binary_wrapper_loop t xs ?cls'"
      using f g by (rule binary_wrapper_loop_step)
    ultimately show ?thesis
      unfolding x using Cons.IH [of ?cls'] by simp
  qed
qed

lemma binary_wrapper_loop_append:
  "binary_wrapper_loop t (xs @ ys) cls =
     (case binary_wrapper_loop t xs cls of
        (cls', None) \<Rightarrow> binary_wrapper_loop t ys cls'
      | (cls', Some e) \<Rightarrow> (cls', Some e))"
  by (induction xs arbitrary: cls) (auto simp: Let_def split: option.splits sum.splits)

lemma binary_wrapper_loop_ok_iff:
  "snd (binary_wrapper_loop t xs cls) = None \<longleftrightarrow>
     (\<forall>(k, s) \<in> set xs. s ''func'' \<noteq> None \<and> cls_guard cls k = None)"
proof (induction xs arbitrary: cls)
  case Nil
  then show ?case by simp
next
  case (Cons x xs)
  obtain k s where x: "x = (k, s)" by (cases x)
  show ?case
  proof (cases "s ''func'' = None \<or> cls_guard cls k \<noteq> None")
    case True
    have "snd (binary_wrapper_loop t ((k, s) # xs) cls) \<noteq> None"
      using True by (rule binary_wrapper_loop_halt(2))
    then show ?thesis unfolding x using True by auto
  next
    case False
    then obtain f where f: "s ''func'' = Some f" and g: "cls_guard cls k = None" by auto
    have step: "binary_wrapper_loop t ((k, s) # xs) cls =
      binary_wrapper_loop t xs (cls\<lparr>cls_attrs := (cls_attrs cls)(k \<mapsto> BinaryMethod
          \<lparr>bm_name = k, bm_qualname = cls_name cls @ ''.'' @ k,
           bm_translate_func = t, bm_func = f\<rparr>)\<rparr>)"
      using f g by (rule binary_wrapper_loop_step)
    show ?thesis
      unfolding x step using Cons.IH f g by simp
  qed
qed

lemma binary_wrapper_loop_installed:
  assumes "snd (binary_wrapper_loop t xs cls) = None"
    and "distinct (map fst xs)"
    and "(k, s) \<in> set xs"
  shows "\<exists>f. s ''func'' = Some f \<and>
     cls_attrs (fst (binary_wrapper_loop t xs cls)) k =
       Some (BinaryMethod \<lparr>bm_name = k, bm_qualname = cls_name cls @ ''.'' @ k,
                           bm_translate_func = t, bm_func = f\<rparr>)"
  using assms
proof (induction xs arbitrary: cls)
  case Nil
  then show ?case by simp
next
  case (Cons x xs)
  obtain k' s' where x: "x = (k', s')" by (cases x)
  have "s' ''func'' \<noteq> None \<and> cls_guard cls k' = None"
    using Cons.prems(1) unfolding binary_wrapper_loop_ok_iff x by simp
  then obtain f' where f': "s' ''func'' = Some f'" and g': "cls_guard cls k' = None" by auto
  let ?cls' = "cls\<lparr>cls_attrs := (cls_attrs cls)(k' \<mapsto> BinaryMethod
          \<lparr>bm_name = k', bm_qualname = cls_name cls @ ''.'' @ k',
           bm_translate_func = t, bm_func = f'\<rparr>)\<rparr>"
  have step: "binary_wrapper_loop t (x # xs) cls = binary_wrapper_loop t xs ?cls'"
    unfolding x using f' g' by (rule binary_wrapper_loop_step)
  have name: "cls_name ?cls' = cls_name cls" by simp
  show ?case
  proof (cases "(k, s) \<in> set xs")
    case True
    have "snd (binary_wrapper_loop t xs ?cls') = None" using Cons.prems(1) step by simp
    moreover have "distinct (map fst xs)" using Cons.prems(2) by simp
    ultimately show ?thesis using Cons.IH [of ?cls'] True step name by simp
  next
    case False
    then have eq: "k = k'" "s = s'" using Cons.prems(3) x by auto
    have "k' \<notin> fst ` set xs" using Cons.prems(2) x by simp
    then have "cls_attrs (fst (binary_wrapper_loop t xs ?cls')) k' = cls_attrs ?cls' k'"
      by (rule binary_wrapper_loop_frame)
    then show ?thesis using eq f' step by simp
  qed
qed

lemma binary_wrapper_loop_installs_some:
  assumes "snd (binary_wrapper_loop t xs cls) = None" and "k \<in> fst ` set xs"
  shows "\<exists>m. cls_attrs (fst (binary_wrapper_loop t xs cls)) k = Some (BinaryMethod m)"
  using assms
proof (induction xs arbitrary: cls)
  case Nil
  then show ?case by simp
next
  case (Cons x xs)
  obtain k' s' where x: "x = (k', s')" by (cases x)
  have "s' ''func'' \<noteq> None \<and> cls_guard cls k' = None"
    using Cons.prems(1) unfolding binary_wrapper_loop_ok_iff x by simp
  then obtain f' where f': "s' ''func'' = Some f'" and g': "cls_guard cls k' = None" by auto
  let ?cls' = "cls\<lparr>cls_attrs := (cls_attrs cls)(k' \<mapsto> BinaryMethod
          \<lparr>bm_name = k', bm_qualname = cls_name cls @ ''.'' @ k',
           bm_translate_func = t, bm_func = f'\<rparr>)\<rparr>"
  have step: "binary_wrapper_loop t (x # xs) cls = binary_wrapper_loop t xs ?cls'"
    unfolding x using f' g' by (rule binary_wrapper_loop_step)
  show ?case
  proof (cases "k \<in> fst ` set xs")
    case True
    then show ?thesis using Cons.IH [of ?cls'] Cons.prems(1) step by simp
  next
    case False
    then have "k = k'" using Cons.prems(2) x by auto
    moreover have "cls_attrs (fst (binary_wrapper_loop t xs ?cls')) k = cls_attrs ?cls' k"
      using False by (rule binary_wrapper_loop_frame)
    ultimately show ?thesis using step by simp
  qed
qed

lemma binary_wrapper_loop_cong:
  fixes cls cls' :: "('s, 'a, 'r) pyclass"
  assumes "cls_name cls' = cls_name cls"
    and "cls_guard cls' = cls_guard cls"
    and "\<And>k. k \<notin> fst ` set (takeWhile (\<lambda>(k, s). s ''func'' \<noteq> None \<and> cls_guard cls k = None) xs) \<Longrightarrow>
            cls_attrs cls' k = cls_attrs cls k"
  shows "binary_wrapper_loop t xs cls' = binary_wrapper_loop t xs cls"
  using assms
proof (induction xs arbitrary: cls cls')
  case Nil
  then show ?case by (simp add: pyclass_eqI)
next
  case (Cons x xs)
  obtain k s where x: "x = (k, s)" by (cases x)
  show ?case
  proof (cases "s ''func'' = None \<or> cls_guard cls k \<noteq> None")
    case True
    then have "cls' = cls" using Cons.prems x by (intro pyclass_eqI) auto
    then show ?thesis by simp
  next
    case False
    then obtain f where f: "s ''func'' = Some f" and g: "cls_guard cls k = None" by auto
    have g': "cls_guard cls' k = None" using g Cons.prems(2) by simp
    let ?m = "BinaryMethod \<lparr>bm_name = k, bm_qualname = cls_name cls @ ''.'' @ k,
                           bm_translate_func = t, bm_func = f\<rparr>"
    let ?c = "cls\<lparr>cls_attrs := (cls_attrs cls)(k \<mapsto> ?m)\<rparr>"
    let ?c' = "cls'\<lparr>cls_attrs := (cls_attrs cls')(k \<mapsto> ?m)\<rparr>"
    have "binary_wrapper_loop t xs ?c' = binary_wrapper_loop t xs ?c"
    proof (rule Cons.IH)
      show "cls_name ?c' = cls_name ?c" using Cons.prems(1) by simp
    next
      show "cls_guard ?c' = cls_guard ?c" using Cons.prems(2) by simp
    next
      fix k'
      assume "k' \<notin> fst ` set (takeWhile (\<lambda>(k, s). s ''func'' \<noteq> None \<and> cls_guard ?c k = None) xs)"
      then show "cls_attrs ?c' k' = cls_attrs ?c k'"
        using Cons.prems(3) [of k'] x f g by simp
    qed
    moreover have "binary_wrapper_loop t ((k, s) # xs) cls = binary_wrapper_loop t xs ?c"
      using f g by (rule binary_wrapper_loop_step)
    moreover have "binary_wrapper_loop t ((k, s) # xs) cls' = binary_wrapper_loop t xs ?c'"
      unfolding Cons.prems(1) [symmetric] using f g' by (rule binary_wrapper_loop_step)
    ultimately show ?thesis unfolding x by simp
  qed
qed

lemma binary_wrapper_loop_idem:
  "binary_wrapper_loop t xs (fst (binary_wrapper_loop t xs cls)) = binary_wrapper_loop t xs cls"
  by (rule binary_wrapper_loop_cong)
     (simp_all add: binary_wrapper_loop_name binary_wrapper_loop_guard
        binary_wrapper_loop_frame_installed)

lemma binary_wrapper_loop_stops:
  assumes "\<forall>(k', s') \<in> set pre. s' ''func'' \<noteq> None \<and> cls_guard cls k' = None"
    and "s ''func'' = None"
  shows "binary_wrapper_loop t (pre @ (k, s) # post) cls =
     (fst (binary_wrapper_loop t pre cls), Some (KeyError ''func''))"
proof -
  have "snd (binary_wrapper_loop t pre cls) = None"
    using assms(1) by (simp add: binary_wrapper_loop_ok_iff)
  then obtain cls' where "binary_wrapper_loop t pre cls = (cls', None)"
    by (cases "binary_wrapper_loop t pre cls") simp
  then show ?thesis using assms(2) by (simp add: binary_wrapper_loop_append)
qed

lemma binary_wrapper_loop_raises:
  assumes "(k, s) \<in> set xs" and "s ''func'' = None"
  shows "snd (binary_wrapper_loop t xs cls) \<noteq> None"
  using assms binary_wrapper_loop_ok_iff [of t xs cls] by auto

lemma binary_wrapper_loop_reached:
  assumes "distinct (map fst (pre @ (k, s) # post))"
    and "snd (binary_wrapper_loop t (pre @ [(k, s)]) cls) = None"
  shows "\<exists>f. s ''func'' = Some f \<and>
     cls_attrs (fst (binary_wrapper_loop t (pre @ (k, s) # post) cls)) k =
       Some (BinaryMethod \<lparr>bm_name = k, bm_qualname = cls_name cls @ ''.'' @ k,
                           bm_translate_func = t, bm_func = f\<rparr>)"
proof -
  let ?part = "binary_wrapper_loop t (pre @ [(k, s)]) cls"
  have d: "distinct (map fst (pre @ [(k, s)]))" using assms(1) by simp
  from binary_wrapper_loop_installed [OF assms(2) d, of k s]
  obtain f where f: "s ''func'' = Some f"
    and i: "cls_attrs (fst ?part) k =
       Some (BinaryMethod \<lparr>bm_name = k, bm_qualname = cls_name cls @ ''.'' @ k,
                           bm_translate_func = t, bm_func = f\<rparr>)"
    by auto
  obtain cls1 where p: "?part = (cls1, None)"
    using assms(2) by (cases ?part) simp
  have "binary_wrapper_loop t (pre @ (k, s) # post) cls =
        binary_wrapper_loop t ((pre @ [(k, s)]) @ post) cls"
    by simp
  also have "\<dots> = binary_wrapper_loop t post cls1"
    unfolding binary_wrapper_loop_append [of t "pre @ [(k, s)]" post cls] p by simp
  finally have run: "binary_wrapper_loop t (pre @ (k, s) # post) cls =
        binary_wrapper_loop t post cls1" .
  have "k \<notin> fst ` set post" using assms(1) by auto
  then have "cls_attrs (fst (binary_wrapper_loop t post cls1)) k = cls_attrs cls1 k"
    by (rule binary_wrapper_loop_frame)
  then show ?thesis using f i p run by simp
qed

subsection \<open>The loop of the unary wrapper\<close>

lemma unary_wrapper_loop_name:
  "cls_name (fst (unary_wrapper_loop t xs cls)) = cls_name cls"
  by (induction xs arbitrary: cls)
     (auto simp: setattr_def Let_def split: option.splits sum.splits)

lemma unary_wrapper_loop_guard:
  "cls_guard (fst (unary_wrapper_loop t xs cls)) = cls_guard cls"
  by (induction xs arbitrary: cls)
     (auto simp: setattr_def Let_def split: option.splits sum.splits)

lemma unary_wrapper_loop_step:
  assumes "s ''func'' = Some f" and "cls_guard cls k = None"
  shows "unary_wrapper_loop t ((k, s) # xs) cls =
     unary_wrapper_loop t xs
       (cls\<lparr>cls_attrs := (cls_attrs cls)(k \<mapsto> UnaryMethod
          \<lparr>um_name = k, um_qualname = cls_name cls @ ''.'' @ k,
           um_translate_func = t, um_func = f\<rparr>)\<rparr>)"
  using assms by (simp add: setattr_def Let_def)

lemma unary_wrapper_loop_halt:
  assumes "s ''func'' = None \<or> cls_guard cls k \<noteq> None"
  shows "fst (unary_wrapper_loop t ((k, s) # xs) cls) = cls"
    and "snd (unary_wrapper_loop t ((k, s) # xs) cls) \<noteq> None"
  using assms by (auto simp: setattr_def Let_def split: option.splits)

lemma unary_wrapper_loop_guarded:
  assumes "s ''func'' = Some f" and "cls_guard cls k = Some e"
  shows "unary_wrapper_loop t ((k, s) # xs) cls = (cls, Some e)"
  using assms by (simp add: setattr_def Let_def)

lemma unary_wrapper_loop_frame:
  "k \<notin> fst ` set xs \<Longrightarrow> cls_attrs (fst (unary_wrapper_loop t xs cls)) k = cls_attrs cls k"
proof (induction xs arbitrary: cls)
  case Nil
  then show ?case by simp
next
  case (Cons x xs)
  obtain k' s where x: "x = (k', s)" by (cases x)
  show ?case
  proof (cases "s ''func'' = None \<or> cls_guard cls k' \<noteq> None")
    case True
    then show ?thesis unfolding x by (simp only: unary_wrapper_loop_halt(1))
  next
    case False
    then obtain f where f: "s ''func'' = Some f" and g: "cls_guard cls k' = None" by auto
    have step: "unary_wrapper_loop t ((k', s) # xs) cls =
      unary_wrapper_loop t xs (cls\<lparr>cls_attrs := (cls_attrs cls)(k' \<mapsto> UnaryMethod
          \<lparr>um_name = k', um_qualname = cls_name cls @ ''.'' @ k',
           um_translate_func = t, um_func = f\<rparr>)\<rparr>)"
      using f g by (rule unary_wrapper_loop_step)
    have "k \<noteq> k'" and "k \<notin> fst ` set xs" using Cons.prems x by auto
    then show ?thesis
      unfolding x step using Cons.IH by simp
  qed
qed

lemma unary_wrapper_loop_frame_installed:
  "k \<notin> fst ` set (takeWhile (\<lambda>(k, s). s ''func'' \<noteq> None \<and> cls_guard cls k = None) xs) \<Longrightarrow>
     cls_attrs (fst (unary_wrapper_loop t xs cls)) k = cls_attrs cls k"
proof (induction xs arbitrary: cls)
  case Nil
  then show ?case by simp
next
  case (Cons x xs)
  obtain k' s where x: "x = (k', s)" by (cases x)
  show ?case
  proof (cases "s ''func'' = None \<or> cls_guard cls k' \<noteq> None")
    case True
    then show ?thesis unfolding x by (simp only: unary_wrapper_loop_halt(1))
  next
    case False
    then obtain f where f: "s ''func'' = Some f" and g: "cls_guard cls k' = None" by auto
    let ?cls' = "cls\<lparr>cls_attrs := (cls_attrs cls)(k' \<mapsto> UnaryMethod
          \<lparr>um_name = k', um_qualname = cls_name cls @ ''.'' @ k',
           um_translate_func = t, um_func = f\<rparr>)\<rparr>"
    have "k \<noteq> k'"
      and "k \<notin> fst ` set (takeWhile (\<lambda>(k, s). s ''func'' \<noteq> None \<and> cls_guard ?cls' k = None) xs)"
      using Cons.prems x f g by auto
    moreover have step: "unary_wrapper_loop t ((k', s) # xs) cls = unary_wrapper_loop t xs ?cls'"
      using f g by (rule unary_wrapper_loop_step)
    ultimately show ?thesis
      unfolding x using Cons.IH [of ?cls'] by simp
  qed
qed

lemma unary_wrapper_loop_append:
  "unary_wrapper_loop t (xs @ ys) cls =
     (case unary_wrapper_loop t xs cls of
        (cls', None) \<Rightarrow> unary_wrapper_loop t ys cls'
      | (cls', Some e) \<Rightarrow> (cls', Some e))"
  by (induction xs arbitrary: cls) (auto simp: Let_def split: option.splits sum.splits)

lemma unary_wrapper_loop_ok_iff:
  "snd (unary_wrapper_loop t xs cls) = None \<longleftrightarrow>
     (\<forall>(k, s) \<in> set xs. s ''func'' \<noteq> None \<and> cls_guard cls k = None)"
proof (induction xs arbitrary: cls)
  case Nil
  then show ?case by simp
next
  case (Cons x xs)
  obtain k s where x: "x = (k, s)" by (cases x)
  show ?case
  proof (cases "s ''func'' = None \<or> cls_guard cls k \<noteq> None")
    case True
    have "snd (unary_wrapper_loop t ((k, s) # xs) cls) \<noteq> None"
      using True by (rule unary_wrapper_loop_halt(2))
    then show ?thesis unfolding x using True by auto
  next
    case False
    then obtain f where f: "s ''func'' = Some f" and g: "cls_guard cls k = None" by auto
    have step: "unary_wrapper_loop t ((k, s) # xs) cls =
      unary_wrapper_loop t xs (cls\<lparr>cls_attrs := (cls_attrs cls)(k \<mapsto> UnaryMethod
          \<lparr>um_name = k, um_qualname = cls_name cls @ ''.'' @ k,
           um_translate_func = t, um_func = f\<rparr>)\<rparr>)"
      using f g by (rule unary_wrapper_loop_step)
    show ?thesis
      unfolding x step using Cons.IH f g by simp
  qed
qed

lemma unary_wrapper_loop_installed:
  assumes "snd (unary_wrapper_loop t xs cls) = None"
    and "distinct (map fst xs)"
    and "(k, s) \<in> set xs"
  shows "\<exists>f. s ''func'' = Some f \<and>
     cls_attrs (fst (unary_wrapper_loop t xs cls)) k =
       Some (UnaryMethod \<lparr>um_name = k, um_qualname = cls_name cls @ ''.'' @ k,
                           um_translate_func = t, um_func = f\<rparr>)"
  using assms
proof (induction xs arbitrary: cls)
  case Nil
  then show ?case by simp
next
  case (Cons x xs)
  obtain k' s' where x: "x = (k', s')" by (cases x)
  have "s' ''func'' \<noteq> None \<and> cls_guard cls k' = None"
    using Cons.prems(1) unfolding unary_wrapper_loop_ok_iff x by simp
  then obtain f' where f': "s' ''func'' = Some f'" and g': "cls_guard cls k' = None" by auto
  let ?cls' = "cls\<lparr>cls_attrs := (cls_attrs cls)(k' \<mapsto> UnaryMethod
          \<lparr>um_name = k', um_qualname = cls_name cls @ ''.'' @ k',
           um_translate_func = t, um_func = f'\<rparr>)\<rparr>"
  have step: "unary_wrapper_loop t (x # xs) cls = unary_wrapper_loop t xs ?cls'"
    unfolding x using f' g' by (rule unary_wrapper_loop_step)
  have name: "cls_name ?cls' = cls_name cls" by simp
  show ?case
  proof (cases "(k, s) \<in> set xs")
    case True
    have "snd (unary_wrapper_loop t xs ?cls') = None" using Cons.prems(1) step by simp
    moreover have "distinct (map fst xs)" using Cons.prems(2) by simp
    ultimately show ?thesis using Cons.IH [of ?cls'] True step name by simp
  next
    case False
    then have eq: "k = k'" "s = s'" using Cons.prems(3) x by auto
    have "k' \<notin> fst ` set xs" using Cons.prems(2) x by simp
    then have "cls_attrs (fst (unary_wrapper_loop t xs ?cls')) k' = cls_attrs ?cls' k'"
      by (rule unary_wrapper_loop_frame)
    then show ?thesis using eq f' step by simp
  qed
qed

lemma unary_wrapper_loop_installs_some:
  assumes "snd (unary_wrapper_loop t xs cls) = None" and "k \<in> fst ` set xs"
  shows "\<exists>m. cls_attrs (fst (unary_wrapper_loop t xs cls)) k = Some (UnaryMethod m)"
  using assms
proof (induction xs arbitrary: cls)
  case Nil
  then show ?case by simp
next
  case (Cons x xs)
  obtain k' s' where x: "x = (k', s')" by (cases x)
  have "s' ''func'' \<noteq> None \<and> cls_guard cls k' = None"
    using Cons.prems(1) unfolding unary_wrapper_loop_ok_iff x by simp
  then obtain f' where f': "s' ''func'' = Some f'" and g': "cls_guard cls k' = None" by auto
  let ?cls' = "cls\<lparr>cls_attrs := (cls_attrs cls)(k' \<mapsto> UnaryMethod
          \<lparr>um_name = k', um_qualname = cls_name cls @ ''.'' @ k',
           um_translate_func = t, um_func = f'\<rparr>)\<rparr>"
  have step: "unary_wrapper_loop t (x # xs) cls = unary_wrapper_loop t xs ?cls'"
    unfolding x using f' g' by (rule unary_wrapper_loop_step)
  show ?case
  proof (cases "k \<in> fst ` set xs")
    case True
    then show ?thesis using Cons.IH [of ?cls'] Cons.prems(1) step by simp
  next
    case False
    then have "k = k'" using Cons.prems(2) x by auto
    moreover have "cls_attrs (fst (unary_wrapper_loop t xs ?cls')) k = cls_attrs ?cls' k"
      using False by (rule unary_wrapper_loop_frame)
    ultimately show ?thesis using step by simp
  qed
qed

lemma unary_wrapper_loop_cong:
  fixes cls cls' :: "('s, 'a, 'r) pyclass"
  assumes "cls_name cls' = cls_name cls"
    and "cls_guard cls' = cls_guard cls"
    and "\<And>k. k \<notin> fst ` set (takeWhile (\<lambda>(k, s). s ''func'' \<noteq> None \<and> cls_guard cls k = None) xs) \<Longrightarrow>
            cls_attrs cls' k = cls_attrs cls k"
  shows "unary_wrapper_loop t xs cls' = unary_wrapper_loop t xs cls"
  using assms
proof (induction xs arbitrary: cls cls')
  case Nil
  then show ?case by (simp add: pyclass_eqI)
next
  case (Cons x xs)
  obtain k s where x: "x = (k, s)" by (cases x)
  show ?case
  proof (cases "s ''func'' = None \<or> cls_guard cls k \<noteq> None")
    case True
    then have "cls' = cls" using Cons.prems x by (intro pyclass_eqI) auto
    then show ?thesis by simp
  next
    case False
    then obtain f where f: "s ''func'' = Some f" and g: "cls_guard cls k = None" by auto
    have g': "cls_guard cls' k = None" using g Cons.prems(2) by simp
    let ?m = "UnaryMethod \<lparr>um_name = k, um_qualname = cls_name cls @ ''.'' @ k,
                           um_translate_func = t, um_func = f\<rparr>"
    let ?c = "cls\<lparr>cls_attrs := (cls_attrs cls)(k \<mapsto> ?m)\<rparr>"
    let ?c' = "cls'\<lparr>cls_attrs := (cls_attrs cls')(k \<mapsto> ?m)\<rparr>"
    have "unary_wrapper_loop t xs ?c' = unary_wrapper_loop t xs ?c"
    proof (rule Cons.IH)
      show "cls_name ?c' = cls_name ?c" using Cons.prems(1) by simp
    next
      show "cls_guard ?c' = cls_guard ?c" using Cons.prems(2) by simp
    next
      fix k'
      assume "k' \<notin> fst ` set (takeWhile (\<lambda>(k, s). s ''func'' \<noteq> None \<and> cls_guard ?c k = None) xs)"
      then show "cls_attrs ?c' k' = cls_attrs ?c k'"
        using Cons.prems(3) [of k'] x f g by simp
    qed
    moreover have "unary_wrapper_loop t ((k, s) # xs) cls = unary_wrapper_loop t xs ?c"
      using f g by (rule unary_wrapper_loop_step)
    moreover have "unary_wrapper_loop t ((k, s) # xs) cls' = unary_wrapper_loop t xs ?c'"
      unfolding Cons.prems(1) [symmetric] using f g' by (rule unary_wrapper_loop_step)
    ultimately show ?thesis unfolding x by simp
  qed
qed

lemma unary_wrapper_loop_idem:
  "unary_wrapper_loop t xs (fst (unary_wrapper_loop t xs cls)) = unary_wrapper_loop t xs cls"
  by (rule unary_wrapper_loop_cong)
     (simp_all add: unary_wrapper_loop_name unary_wrapper_loop_guard
        unary_wrapper_loop_frame_installed)

lemma unary_wrapper_loop_stops:
  assumes "\<forall>(k', s') \<in> set pre. s' ''func'' \<noteq> None \<and> cls_guard cls k' = None"
    and "s ''func'' = None"
  shows "unary_wrapper_loop t (pre @ (k, s) # post) cls =
     (fst (unary_wrapper_loop t pre cls), Some (KeyError ''func''))"
proof -
  have "snd (unary_wrapper_loop t pre cls) = None"
    using assms(1) by (simp add: unary_wrapper_loop_ok_iff)
  then obtain cls' where "unary_wrapper_loop t pre cls = (cls', None)"
    by (cases "unary_wrapper_loop t pre cls") simp
  then show ?thesis using assms(2) by (simp add: unary_wrapper_loop_append)
qed

lemma unary_wrapper_loop_raises:
  assumes "(k, s) \<in> set xs" and "s ''func'' = None"
  shows "snd (unary_wrapper_loop t xs cls) \<noteq> None"
  using assms unary_wrapper_loop_ok_iff [of t xs cls] by auto

lemma unary_wrapper_loop_reached:
  assumes "distinct (map fst (pre @ (k, s) # post))"
    and "snd (unary_wrapper_loop t (pre @ [(k, s)]) cls) = None"
  shows "\<exists>f. s ''func'' = Some f \<and>
     cls_attrs (fst (unary_wrapper_loop t (pre @ (k, s) # post) cls)) k =
       Some (UnaryMethod \<lparr>um_name = k, um_qualname = cls_name cls @ ''.'' @ k,
                           um_translate_func = t, um_func = f\<rparr>)"
proof -
  let ?part = "unary_wrapper_loop t (pre @ [(k, s)]) cls"
  have d: "distinct (map fst (pre @ [(k, s)]))" using assms(1) by simp
  from unary_wrapper_loop_installed [OF assms(2) d, of k s]
  obtain f where f: "s ''func'' = Some f"
    and i: "cls_attrs (fst ?part) k =
       Some (UnaryMethod \<lparr>um_name = k, um_qualname = cls_name cls @ ''.'' @ k,
                           um_translate_func = t, um_func = f\<rparr>)"
    by auto
  obtain cls1 where p: "?part = (cls1, None)"
    using assms(2) by (cases ?part) simp
  have "unary_wrapper_loop t (pre @ (k, s) # post) cls =
        unary_wrapper_loop t ((pre @ [(k, s)]) @ post) cls"
    by simp
  also have "\<dots> = unary_wrapper_loop t post cls1"
    unfolding unary_wrapper_loop_append [of t "pre @ [(k, s)]" post cls] p by simp
  finally have run: "unary_wrapper_loop t (pre @ (k, s) # post) cls =
        unary_wrapper_loop t post cls1" .
  have "k \<notin> fst ` set post" using assms(1) by auto
  then have "cls_attrs (fst (unary_wrapper_loop t post cls1)) k = cls_attrs cls1 k"
    by (rule unary_wrapper_loop_frame)
  then show ?thesis using f i p run by simp
qed

subsection \<open>Assignment to a block of an array\<close>

lemma setitem_block_fits:
  assumes "r0 \<le> r1" "r1 \<le> shape_h c" "c0 \<le> c1" "c1 \<le> shape_w c"
    and "shape_h v = r1 - r0" "shape_w v = c1 - c0" "shape_d v = shape_d c"
  shows "setitem_block astype c r0 r1 c0 c1 v =
     Inr (c\<lparr>elems := (\<lambda>i j k.
            if r0 \<le> i \<and> i < r1 \<and> c0 \<le> j \<and> j < c1 \<and> k < shape_d c
            then astype (elems v (i - r0) (j - c0) k)
            else elems c i j k)\<rparr>)"
proof -
  have rs: "min r0 (shape_h c) = r0" "min r1 (shape_h c) = r1"
    and cs: "min c0 (shape_w c) = c0" "min c1 (shape_w c) = c1"
    using assms by simp_all
  have "(\<lambda>i j k.
          if r0 \<le> i \<and> i < r0 + (r1 - r0) \<and> c0 \<le> j \<and> j < c0 + (c1 - c0) \<and> k < shape_d c
          then astype (elems v (if shape_h v = 1 then 0 else i - r0)
                               (if shape_w v = 1 then 0 else j - c0)
                               (if shape_d v = 1 then 0 else k))
          else elems c i j k) =
        (\<lambda>i j k.
          if r0 \<le> i \<and> i < r1 \<and> c0 \<le> j \<and> j < c1 \<and> k < shape_d c
          then astype (elems v (i - r0) (j - c0) k)
          else elems c i j k)"
  proof (intro ext)
    fix i j k
    show "(if r0 \<le> i \<and> i < r0 + (r1 - r0) \<and> c0 \<le> j \<and> j < c0 + (c1 - c0) \<and> k < shape_d c
          then astype (elems v (if shape_h v = 1 then 0 else i - r0)
                               (if shape_w v = 1 then 0 else j - c0)
                               (if shape_d v = 1 then 0 else k))
          else elems c i j k) =
        (if r0 \<le> i \<and> i < r1 \<and> c0 \<le> j \<and> j < c1 \<and> k < shape_d c
          then astype (elems v (i - r0) (j - c0) k)
          else elems c i j k)"
    proof (cases "r0 \<le> i \<and> i < r1 \<and> c0 \<le> j \<and> j < c1 \<and> k < shape_d c")
      case True
      have i: "(if shape_h v = 1 then 0 else i - r0) = i - r0"
        using True assms(5) by auto
      have j: "(if shape_w v = 1 then 0 else j - c0) = j - c0"
        using True assms(6) by auto
      have k: "(if shape_d v = 1 then 0 else k) = k"
        using True assms(7) by auto
      have "r0 \<le> i \<and> i < r0 + (r1 - r0) \<and> c0 \<le> j \<and> j < c0 + (c1 - c0) \<and> k < shape_d c"
        using True by arith
      then show ?thesis using True by (simp only: i j k if_True)
    next
      case False
      then have "\<not> (r0 \<le> i \<and> i < r0 + (r1 - r0) \<and> c0 \<le> j \<and> j < c0 + (c1 - c0) \<and> k < shape_d c)"
        using assms(1,3) by arith
      then show ?thesis using False by (simp only: if_False)
    qed
  qed
  then show ?thesis
    unfolding setitem_block_def Let_def rs cs using assms(5-7) by simp
qed

lemma hstack_image_arrays_result:
  assumes "shape_d b = shape_d a"
  shows "hstack_image_arrays astype a b = Inr
     \<lparr>shape_h = max (shape_h a) (shape_h b), shape_w = shape_w a + shape_w b, shape_d = shape_d a,
      elems = (\<lambda>i j k.
         if i < shape_h b \<and> shape_w a \<le> j \<and> j < shape_w a + shape_w b \<and> k < shape_d a
         then astype (elems b i (j - shape_w a) k)
         else if i < shape_h a \<and> j < shape_w a \<and> k < shape_d a
         then astype (elems a i j k)
         else 255)\<rparr>"
proof -
  let ?c = "np_full (max (shape_h a) (shape_h b)) (shape_w a + shape_w b) (shape_d a) (255 :: 8 word)"
  have 1: "setitem_block astype ?c 0 (shape_h a) 0 (shape_w a) a =
     Inr (?c\<lparr>elems := (\<lambda>i j k.
            if 0 \<le> i \<and> i < shape_h a \<and> 0 \<le> j \<and> j < shape_w a \<and> k < shape_d ?c
            then astype (elems a (i - 0) (j - 0) k)
            else elems ?c i j k)\<rparr>)" (is "_ = Inr ?c1")
    by (rule setitem_block_fits) (simp_all add: np_full_def)
  have 2: "setitem_block astype ?c1 0 (shape_h b) (shape_w a) (shape_w a + shape_w b) b =
     Inr (?c1\<lparr>elems := (\<lambda>i j k.
            if 0 \<le> i \<and> i < shape_h b \<and> shape_w a \<le> j \<and> j < shape_w a + shape_w b \<and> k < shape_d ?c1
            then astype (elems b (i - 0) (j - shape_w a) k)
            else elems ?c1 i j k)\<rparr>)"
    by (rule setitem_block_fits) (simp_all add: np_full_def assms)
  show ?thesis
    using 1 2 by (simp add: hstack_image_arrays_def Let_def np_full_def cong: if_cong)
qed

lemma vstack_image_arrays_result:
  assumes "shape_d b = shape_d a"
  shows "vstack_image_arrays astype a b = Inr
     \<lparr>shape_h = shape_h a + shape_h b, shape_w = max (shape_w a) (shape_w b), shape_d = shape_d a,
      elems = (\<lambda>i j k.
         if shape_h a \<le> i \<and> i < shape_h a + shape_h b \<and> j < shape_w b \<and> k < shape_d a
         then astype (elems b (i - shape_h a) j k)
         else if i < shape_h a \<and> j < shape_w a \<and> k < shape_d a
         then astype (elems a i j k)
         else 255)\<rparr>"
proof -
  let ?c = "np_full (shape_h a + shape_h b) (max (shape_w a) (shape_w b)) (shape_d a) (255 :: 8 word)"
  have 1: "setitem_block astype ?c 0 (shape_h a) 0 (shape_w a) a =
     Inr (?c\<lparr>elems := (\<lambda>i j k.
            if 0 \<le> i \<and> i < shape_h a \<and> 0 \<le> j \<and> j < shape_w a \<and> k < shape_d ?c
            then astype (elems a (i - 0) (j - 0) k)
            else elems ?c i j k)\<rparr>)" (is "_ = Inr ?c1")
    by (rule setitem_block_fits) (simp_all add: np_full_def)
  have 2: "setitem_block astype ?c1 (shape_h a) (shape_h a + shape_h b) 0 (shape_w b) b =
     Inr (?c1\<lparr>elems := (\<lambda>i j k.
            if shape_h a \<le> i \<and> i < shape_h a + shape_h b \<and> 0 \<le> j \<and> j < shape_w b \<and> k < shape_d ?c1
            then astype (elems b (i - shape_h a) (j - 0) k)
            else elems ?c1 i j k)\<rparr>)"
    by (rule setitem_block_fits) (simp_all add: np_full_def assms)
  show ?thesis
    using 1 2 by (simp add: vstack_image_arrays_def Let_def np_full_def cong: if_cong)
qed

subsection \<open>Decorations do not write to the catalogs\<close>

lemma decorate_keeps_configs:
  "obj_binary_magic_config (decorate st d) = obj_binary_magic_config st
   \<and> obj_unary_magic_config (decorate st d) = obj_unary_magic_config st"
  by (cases d)
     (simp_all add: attach_binary_magic_methods_def attach_unary_magic_methods_def Let_def)

lemma decorate_all_keeps_configs:
  "obj_binary_magic_config (decorate_all st ds) = obj_binary_magic_config st
   \<and> obj_unary_magic_config (decorate_all st ds) = obj_unary_magic_config st"
  unfolding decorate_all_def
  by (induction ds arbitrary: st) (simp_all add: decorate_keeps_configs)

section \<open>The claims\<close>

subsection \<open>C1: an installed operator is the translation function applied to the entry's function\<close>

text \<open>
  C1. Take a catalog (the one passed to the factory, or the built-in one when none is
  passed) whose keys are distinct, as the keys of a dictionary are, and a class to which the
  modifier returned by \<^verbatim>\<open>attach_binary_magic_methods\<close> has been applied without an
  exception. Then for every entry of the catalog, using the operator of that name on an
  instance with an operand returns \<^verbatim>\<open>translate_func(self, other, func)\<close>, where
  \<open>func\<close> is the \<^verbatim>\<open>func\<close> field of that entry. The same holds for
  \<^verbatim>\<open>attach_unary_magic_methods\<close> with \<^verbatim>\<open>translate_func(self, func)\<close>.
\<close>

theorem installed_operator_returns_translate:
  "(attach_binary_magic_methods global_config translate_func config = Inr wrapper
      \<and> catalog = (case config of None \<Rightarrow> global_config | Some c \<Rightarrow> c)
      \<and> distinct (map fst (config_items catalog))
      \<and> wrapper cls = (cls', None)
      \<and> (target_name, settings) \<in> set (config_items catalog)
    \<longrightarrow> (\<exists>func. settings ''func'' = Some func
           \<and> invoke_binary cls' target_name self other = Inr (translate_func self other func)))
   \<and>
   (attach_unary_magic_methods uglobal_config utranslate_func uconfig = Inr uwrapper
      \<and> ucatalog = (case uconfig of None \<Rightarrow> uglobal_config | Some c \<Rightarrow> c)
      \<and> distinct (map fst (config_items ucatalog))
      \<and> uwrapper ucls = (ucls', None)
      \<and> (utarget_name, usettings) \<in> set (config_items ucatalog)
    \<longrightarrow> (\<exists>func. usettings ''func'' = Some func
           \<and> invoke_unary ucls' utarget_name uself = Inr (utranslate_func uself func)))"
proof (intro conjI impI)
  assume a: "attach_binary_magic_methods global_config translate_func config = Inr wrapper
      \<and> catalog = (case config of None \<Rightarrow> global_config | Some c \<Rightarrow> c)
      \<and> distinct (map fst (config_items catalog))
      \<and> wrapper cls = (cls', None)
      \<and> (target_name, settings) \<in> set (config_items catalog)"
  then have a1: "attach_binary_magic_methods global_config translate_func config = Inr wrapper"
    and a2: "catalog = (case config of None \<Rightarrow> global_config | Some c \<Rightarrow> c)"
    and a3: "distinct (map fst (config_items catalog))"
    and a4: "wrapper cls = (cls', None)"
    and a5: "(target_name, settings) \<in> set (config_items catalog)"
    by blast+
  have w: "wrapper = binary_wrapper translate_func catalog"
    using a1 unfolding a2 by (simp add: attach_binary_magic_methods_def Let_def)
  let ?loop = "binary_wrapper_loop translate_func (config_items catalog) cls"
  have r: "?loop = (cls', None)" using a4 unfolding w by (simp add: binary_wrapper_def)
  then have "snd ?loop = None" by simp
  from binary_wrapper_loop_installed [OF this a3 a5]
  obtain func where f: "settings ''func'' = Some func"
    and i: "cls_attrs (fst ?loop) target_name =
      Some (BinaryMethod \<lparr>bm_name = target_name, bm_qualname = cls_name cls @ ''.'' @ target_name,
                           bm_translate_func = translate_func, bm_func = func\<rparr>)"
    by blast
  have "invoke_binary cls' target_name self other = Inr (translate_func self other func)"
    using i r by (simp add: invoke_binary_def call_binary_def)
  with f show "\<exists>func. settings ''func'' = Some func
           \<and> invoke_binary cls' target_name self other = Inr (translate_func self other func)"
    by blast
next
  assume a: "attach_unary_magic_methods uglobal_config utranslate_func uconfig = Inr uwrapper
      \<and> ucatalog = (case uconfig of None \<Rightarrow> uglobal_config | Some c \<Rightarrow> c)
      \<and> distinct (map fst (config_items ucatalog))
      \<and> uwrapper ucls = (ucls', None)
      \<and> (utarget_name, usettings) \<in> set (config_items ucatalog)"
  then have a1: "attach_unary_magic_methods uglobal_config utranslate_func uconfig = Inr uwrapper"
    and a2: "ucatalog = (case uconfig of None \<Rightarrow> uglobal_config | Some c \<Rightarrow> c)"
    and a3: "distinct (map fst (config_items ucatalog))"
    and a4: "uwrapper ucls = (ucls', None)"
    and a5: "(utarget_name, usettings) \<in> set (config_items ucatalog)"
    by blast+
  have w: "uwrapper = unary_wrapper utranslate_func ucatalog"
    using a1 unfolding a2 by (simp add: attach_unary_magic_methods_def Let_def)
  let ?loop = "unary_wrapper_loop utranslate_func (config_items ucatalog) ucls"
  have r: "?loop = (ucls', None)" using a4 unfolding w by (simp add: unary_wrapper_def)
  then have "snd ?loop = None" by simp
  from unary_wrapper_loop_installed [OF this a3 a5]
  obtain func where f: "usettings ''func'' = Some func"
    and i: "cls_attrs (fst ?loop) utarget_name =
      Some (UnaryMethod \<lparr>um_name = utarget_name, um_qualname = cls_name ucls @ ''.'' @ utarget_name,
                           um_translate_func = utranslate_func, um_func = func\<rparr>)"
    by blast
  have "invoke_unary ucls' utarget_name uself = Inr (utranslate_func uself func)"
    using i r by (simp add: invoke_unary_def call_unary_def)
  with f show "\<exists>func. usettings ''func'' = Some func
           \<and> invoke_unary ucls' utarget_name uself = Inr (utranslate_func uself func)"
    by blast
qed

theorem installed_operator_returns_translate_witness:
  "(attach_binary_magic_methods \<lparr>config_items = [], readonly = True, as_attrs = False\<rparr> (\<lambda>(self::int) other (f::int \<Rightarrow> int \<Rightarrow> int). f self other :: int) (Some \<lparr>config_items = [(''combine'', dict_func (\<lambda>(x::int) y. x + y))], readonly = True, as_attrs = False\<rparr>) = Inr (binary_wrapper (\<lambda>(self::int) other (f::int \<Rightarrow> int \<Rightarrow> int). f self other :: int) \<lparr>config_items = [(''combine'', dict_func (\<lambda>(x::int) y. x + y))], readonly = True, as_attrs = False\<rparr>)
    \<and> distinct (map fst (config_items \<lparr>config_items = [(''combine'', dict_func (\<lambda>(x::int) y. x + y))], readonly = True, as_attrs = False\<rparr>))
    \<and> binary_wrapper (\<lambda>(self::int) other (f::int \<Rightarrow> int \<Rightarrow> int). f self other :: int) \<lparr>config_items = [(''combine'', dict_func (\<lambda>(x::int) y. x + y))], readonly = True, as_attrs = False\<rparr> \<lparr>cls_name = ''Wrapped'', cls_attrs = Map.empty, cls_guard = (\<lambda>n. if n = ''__name__'' then Some (TypeError ''__name__'') else None)\<rparr> = (\<lparr>cls_name = ''Wrapped'', cls_attrs = [''combine'' \<mapsto> BinaryMethod \<lparr>bm_name = ''combine'', bm_qualname = ''Wrapped.combine'', bm_translate_func = (\<lambda>(self::int) other (f::int \<Rightarrow> int \<Rightarrow> int). f self other :: int), bm_func = (\<lambda>(x::int) y. x + y)\<rparr>], cls_guard = (\<lambda>n. if n = ''__name__'' then Some (TypeError ''__name__'') else None)\<rparr>, None)
    \<and> (''combine'', dict_func (\<lambda>(x::int) y. x + y)) \<in> set (config_items \<lparr>config_items = [(''combine'', dict_func (\<lambda>(x::int) y. x + y))], readonly = True, as_attrs = False\<rparr>)
    \<and> invoke_binary \<lparr>cls_name = ''Wrapped'', cls_attrs = [''combine'' \<mapsto> BinaryMethod \<lparr>bm_name = ''combine'', bm_qualname = ''Wrapped.combine'', bm_translate_func = (\<lambda>(self::int) other (f::int \<Rightarrow> int \<Rightarrow> int). f self other :: int), bm_func = (\<lambda>(x::int) y. x + y)\<rparr>], cls_guard = (\<lambda>n. if n = ''__name__'' then Some (TypeError ''__name__'') else None)\<rparr> ''combine'' 3 4 = Inr 7)
   \<and>
   (attach_unary_magic_methods \<lparr>config_items = [], readonly = True, as_attrs = False\<rparr> (\<lambda>(self::int) (f::int \<Rightarrow> int). f self :: int) (Some \<lparr>config_items = [(''__neg__'', dict_func (\<lambda>(x::int). - x))], readonly = True, as_attrs = False\<rparr>) = Inr (unary_wrapper (\<lambda>(self::int) (f::int \<Rightarrow> int). f self :: int) \<lparr>config_items = [(''__neg__'', dict_func (\<lambda>(x::int). - x))], readonly = True, as_attrs = False\<rparr>)
    \<and> distinct (map fst (config_items \<lparr>config_items = [(''__neg__'', dict_func (\<lambda>(x::int). - x))], readonly = True, as_attrs = False\<rparr>))
    \<and> unary_wrapper (\<lambda>(self::int) (f::int \<Rightarrow> int). f self :: int) \<lparr>config_items = [(''__neg__'', dict_func (\<lambda>(x::int). - x))], readonly = True, as_attrs = False\<rparr> \<lparr>cls_name = ''Wrapped'', cls_attrs = Map.empty, cls_guard = (\<lambda>n. if n = ''__name__'' then Some (TypeError ''__name__'') else None)\<rparr> = (\<lparr>cls_name = ''Wrapped'', cls_attrs = [''__neg__'' \<mapsto> UnaryMethod \<lparr>um_name = ''__neg__'', um_qualname = ''Wrapped.__neg__'', um_translate_func = (\<lambda>(self::int) (f::int \<Rightarrow> int). f self :: int), um_func = (\<lambda>(x::int). - x)\<rparr>], cls_guard = (\<lambda>n. if n = ''__name__'' then Some (TypeError ''__name__'') else None)\<rparr>, None)
    \<and> (''__neg__'', dict_func (\<lambda>(x::int). - x)) \<in> set (config_items \<lparr>config_items = [(''__neg__'', dict_func (\<lambda>(x::int). - x))], readonly = True, as_attrs = False\<rparr>)
    \<and> invoke_unary \<lparr>cls_name = ''Wrapped'', cls_attrs = [''__neg__'' \<mapsto> UnaryMethod \<lparr>um_name = ''__neg__'', um_qualname = ''Wrapped.__neg__'', um_translate_func = (\<lambda>(self::int) (f::int \<Rightarrow> int). f self :: int), um_func = (\<lambda>(x::int). - x)\<rparr>], cls_guard = (\<lambda>n. if n = ''__name__'' then Some (TypeError ''__name__'') else None)\<rparr> ''__neg__'' 5 = Inr (- 5))"
  using installed_operator_returns_translate [
    where global_config = "\<lparr>config_items = [], readonly = True, as_attrs = False\<rparr>" and translate_func = "(\<lambda>(self::int) other (f::int \<Rightarrow> int \<Rightarrow> int). f self other :: int)" and config = "Some \<lparr>config_items = [(''combine'', dict_func (\<lambda>(x::int) y. x + y))], readonly = True, as_attrs = False\<rparr>"
      and wrapper = "binary_wrapper (\<lambda>(self::int) other (f::int \<Rightarrow> int \<Rightarrow> int). f self other :: int) \<lparr>config_items = [(''combine'', dict_func (\<lambda>(x::int) y. x + y))], readonly = True, as_attrs = False\<rparr>" and catalog = "\<lparr>config_items = [(''combine'', dict_func (\<lambda>(x::int) y. x + y))], readonly = True, as_attrs = False\<rparr>"
      and cls = "\<lparr>cls_name = ''Wrapped'', cls_attrs = Map.empty, cls_guard = (\<lambda>n. if n = ''__name__'' then Some (TypeError ''__name__'') else None)\<rparr>" and cls' = "\<lparr>cls_name = ''Wrapped'', cls_attrs = [''combine'' \<mapsto> BinaryMethod \<lparr>bm_name = ''combine'', bm_qualname = ''Wrapped.combine'', bm_translate_func = (\<lambda>(self::int) other (f::int \<Rightarrow> int \<Rightarrow> int). f self other :: int), bm_func = (\<lambda>(x::int) y. x + y)\<rparr>], cls_guard = (\<lambda>n. if n = ''__name__'' then Some (TypeError ''__name__'') else None)\<rparr>"
      and target_name = "''combine''" and settings = "dict_func (\<lambda>(x::int) y. x + y)"
      and self = 3 and other = 4
      and uglobal_config = "\<lparr>config_items = [], readonly = True, as_attrs = False\<rparr>" and utranslate_func = "(\<lambda>(self::int) (f::int \<Rightarrow> int). f self :: int)" and uconfig = "Some \<lparr>config_items = [(''__neg__'', dict_func (\<lambda>(x::int). - x))], readonly = True, as_attrs = False\<rparr>"
      and uwrapper = "unary_wrapper (\<lambda>(self::int) (f::int \<Rightarrow> int). f self :: int) \<lparr>config_items = [(''__neg__'', dict_func (\<lambda>(x::int). - x))], readonly = True, as_attrs = False\<rparr>" and ucatalog = "\<lparr>config_items = [(''__neg__'', dict_func (\<lambda>(x::int). - x))], readonly = True, as_attrs = False\<rparr>"
      and ucls = "\<lparr>cls_name = ''Wrapped'', cls_attrs = Map.empty, cls_guard = (\<lambda>n. if n = ''__name__'' then Some (TypeError ''__name__'') else None)\<rparr>" and ucls' = "\<lparr>cls_name = ''Wrapped'', cls_attrs = [''__neg__'' \<mapsto> UnaryMethod \<lparr>um_name = ''__neg__'', um_qualname = ''Wrapped.__neg__'', um_translate_func = (\<lambda>(self::int) (f::int \<Rightarrow> int). f self :: int), um_func = (\<lambda>(x::int). - x)\<rparr>], cls_guard = (\<lambda>n. if n = ''__name__'' then Some (TypeError ''__name__'') else None)\<rparr>"
      and utarget_name = "''__neg__''" and usettings = "dict_func (\<lambda>(x::int). - x)"
      and uself = 5]
  by (simp add: attach_binary_magic_methods_def attach_unary_magic_methods_def
        binary_wrapper_def unary_wrapper_def dict_func_def setattr_def)

subsection \<open>C2: reflected operators\<close>

text \<open>
  C2. In the built-in binary catalog the function of each reflected entry, applied to
  \<open>(a, b)\<close>, is the function of the direct entry applied to \<open>(b, a)\<close>, which is
  NumPy's function on \<open>(b, a)\<close>: for add, subtract, multiply, power, modulo,
  floor-divide, true-divide, and, or, xor.
\<close>

theorem reflected_func_is_direct_func_swapped:
  "call_func (binary_magic_config np) ''__radd__'' a b = call_func (binary_magic_config np) ''__add__'' b a
   \<and> call_func (binary_magic_config np) ''__add__'' b a = Inr (np_add np b a)
   \<and> call_func (binary_magic_config np) ''__rsub__'' a b = call_func (binary_magic_config np) ''__sub__'' b a
   \<and> call_func (binary_magic_config np) ''__sub__'' b a = Inr (np_subtract np b a)
   \<and> call_func (binary_magic_config np) ''__rmul__'' a b = call_func (binary_magic_config np) ''__mul__'' b a
   \<and> call_func (binary_magic_config np) ''__mul__'' b a = Inr (np_multiply np b a)
   \<and> call_func (binary_magic_config np) ''__rpow__'' a b = call_func (binary_magic_config np) ''__pow__'' b a
   \<and> call_func (binary_magic_config np) ''__pow__'' b a = Inr (np_power np b a)
   \<and> call_func (binary_magic_config np) ''__rmod__'' a b = call_func (binary_magic_config np) ''__mod__'' b a
   \<and> call_func (binary_magic_config np) ''__mod__'' b a = Inr (np_mod np b a)
   \<and> call_func (binary_magic_config np) ''__rfloordiv__'' a b = call_func (binary_magic_config np) ''__floordiv__'' b a
   \<and> call_func (binary_magic_config np) ''__floordiv__'' b a = Inr (np_floor_divide np b a)
   \<and> call_func (binary_magic_config np) ''__rtruediv__'' a b = call_func (binary_magic_config np) ''__truediv__'' b a
   \<and> call_func (binary_magic_config np) ''__truediv__'' b a = Inr (np_true_divide np b a)
   \<and> call_func (binary_magic_config np) ''__rand__'' a b = call_func (binary_magic_config np) ''__and__'' b a
   \<and> call_func (binary_magic_config np) ''__and__'' b a = Inr (np_bitwise_and np b a)
   \<and> call_func (binary_magic_config np) ''__ror__'' a b = call_func (binary_magic_config np) ''__or__'' b a
   \<and> call_func (binary_magic_config np) ''__or__'' b a = Inr (np_bitwise_or np b a)
   \<and> call_func (binary_magic_config np) ''__rxor__'' a b = call_func (binary_magic_config np) ''__xor__'' b a
   \<and> call_func (binary_magic_config np) ''__xor__'' b a = Inr (np_bitwise_xor np b a)"
  by (simp_all add: call_func_def getitem_func_def binary_magic_config_def dict_func_def)

subsection \<open>C3: nothing is validated when the modifier is constructed\<close>

text \<open>
  The claim C3 fails on a catalog whose only entry has no \<^verbatim>\<open>func\<close>: both factories
  return their modifier, and the \<^verbatim>\<open>KeyError\<close> comes when the modifier is applied to a
  class. (The global default, the first argument, is not read when a catalog is passed.)
\<close>

theorem factory_returns_modifier_for_catalog_without_func:
  "attach_binary_magic_methods \<lparr>config_items = [], readonly = True, as_attrs = False\<rparr> (\<lambda>(self::int) other (f::int \<Rightarrow> int \<Rightarrow> int). f self other :: int) (Some \<lparr>config_items = [(''combine'', (Map.empty :: (int \<Rightarrow> int \<Rightarrow> int) settings))], readonly = True, as_attrs = False\<rparr>) = Inr (binary_wrapper (\<lambda>(self::int) other (f::int \<Rightarrow> int \<Rightarrow> int). f self other :: int) \<lparr>config_items = [(''combine'', (Map.empty :: (int \<Rightarrow> int \<Rightarrow> int) settings))], readonly = True, as_attrs = False\<rparr>)
   \<and> binary_wrapper (\<lambda>(self::int) other (f::int \<Rightarrow> int \<Rightarrow> int). f self other :: int) \<lparr>config_items = [(''combine'', (Map.empty :: (int \<Rightarrow> int \<Rightarrow> int) settings))], readonly = True, as_attrs = False\<rparr> \<lparr>cls_name = ''Wrapped'', cls_attrs = Map.empty, cls_guard = (\<lambda>n. if n = ''__name__'' then Some (TypeError ''__name__'') else None)\<rparr> = (\<lparr>cls_name = ''Wrapped'', cls_attrs = Map.empty, cls_guard = (\<lambda>n. if n = ''__name__'' then Some (TypeError ''__name__'') else None)\<rparr>, Some (KeyError ''func''))
   \<and> attach_unary_magic_methods \<lparr>config_items = [], readonly = True, as_attrs = False\<rparr> (\<lambda>(self::int) (f::int \<Rightarrow> int). f self :: int) (Some \<lparr>config_items = [(''__neg__'', (Map.empty :: (int \<Rightarrow> int) settings))], readonly = True, as_attrs = False\<rparr>) = Inr (unary_wrapper (\<lambda>(self::int) (f::int \<Rightarrow> int). f self :: int) \<lparr>config_items = [(''__neg__'', (Map.empty :: (int \<Rightarrow> int) settings))], readonly = True, as_attrs = False\<rparr>)
   \<and> unary_wrapper (\<lambda>(self::int) (f::int \<Rightarrow> int). f self :: int) \<lparr>config_items = [(''__neg__'', (Map.empty :: (int \<Rightarrow> int) settings))], readonly = True, as_attrs = False\<rparr> \<lparr>cls_name = ''Wrapped'', cls_attrs = Map.empty, cls_guard = (\<lambda>n. if n = ''__name__'' then Some (TypeError ''__name__'') else None)\<rparr> = (\<lparr>cls_name = ''Wrapped'', cls_attrs = Map.empty, cls_guard = (\<lambda>n. if n = ''__name__'' then Some (TypeError ''__name__'') else None)\<rparr>, Some (KeyError ''func''))"
  by (simp add: attach_binary_magic_methods_def attach_unary_magic_methods_def
        binary_wrapper_def unary_wrapper_def)

text \<open>
  C3, as the code has it. The factories do not look into the catalog: for every catalog,
  also one with an entry that has no \<^verbatim>\<open>func\<close>, they return the modifier and raise
  nothing. Such an entry makes the modifier raise when it is applied to a class; the
  exception is \<^verbatim>\<open>KeyError('func')\<close> when every entry before the first such one has a
  \<^verbatim>\<open>func\<close> and a name that the class lets be assigned.
\<close>

theorem factory_does_not_validate_catalog:
  "attach_binary_magic_methods global_config translate_func config
     = Inr (binary_wrapper translate_func (case config of None \<Rightarrow> global_config | Some c \<Rightarrow> c))
   \<and> attach_unary_magic_methods uglobal_config utranslate_func uconfig
     = Inr (unary_wrapper utranslate_func (case uconfig of None \<Rightarrow> uglobal_config | Some c \<Rightarrow> c))
   \<and> ((target_name, settings) \<in> set (config_items catalog) \<and> settings ''func'' = None
        \<longrightarrow> snd (binary_wrapper translate_func catalog cls) \<noteq> None)
   \<and> (config_items catalog = pre @ (target_name, settings) # post
        \<and> (\<forall>(k, s) \<in> set pre. s ''func'' \<noteq> None \<and> cls_guard cls k = None)
        \<and> settings ''func'' = None
        \<longrightarrow> snd (binary_wrapper translate_func catalog cls) = Some (KeyError ''func''))
   \<and> ((utarget_name, usettings) \<in> set (config_items ucatalog) \<and> usettings ''func'' = None
        \<longrightarrow> snd (unary_wrapper utranslate_func ucatalog ucls) \<noteq> None)
   \<and> (config_items ucatalog = upre @ (utarget_name, usettings) # upost
        \<and> (\<forall>(k, s) \<in> set upre. s ''func'' \<noteq> None \<and> cls_guard ucls k = None)
        \<and> usettings ''func'' = None
        \<longrightarrow> snd (unary_wrapper utranslate_func ucatalog ucls) = Some (KeyError ''func''))"
proof -
  have 1: "attach_binary_magic_methods global_config translate_func config
     = Inr (binary_wrapper translate_func (case config of None \<Rightarrow> global_config | Some c \<Rightarrow> c))"
    by (simp add: attach_binary_magic_methods_def Let_def)
  have 2: "attach_unary_magic_methods uglobal_config utranslate_func uconfig
     = Inr (unary_wrapper utranslate_func (case uconfig of None \<Rightarrow> uglobal_config | Some c \<Rightarrow> c))"
    by (simp add: attach_unary_magic_methods_def Let_def)
  have 3: "((target_name, settings) \<in> set (config_items catalog) \<and> settings ''func'' = None
        \<longrightarrow> snd (binary_wrapper translate_func catalog cls) \<noteq> None)"
    unfolding binary_wrapper_def using binary_wrapper_loop_raises by blast
  have 4: "(config_items catalog = pre @ (target_name, settings) # post
        \<and> (\<forall>(k, s) \<in> set pre. s ''func'' \<noteq> None \<and> cls_guard cls k = None)
        \<and> settings ''func'' = None
        \<longrightarrow> snd (binary_wrapper translate_func catalog cls) = Some (KeyError ''func''))"
    unfolding binary_wrapper_def using binary_wrapper_loop_stops [of pre cls settings translate_func target_name post] by auto
  have 5: "((utarget_name, usettings) \<in> set (config_items ucatalog) \<and> usettings ''func'' = None
        \<longrightarrow> snd (unary_wrapper utranslate_func ucatalog ucls) \<noteq> None)"
    unfolding unary_wrapper_def using unary_wrapper_loop_raises by blast
  have 6: "(config_items ucatalog = upre @ (utarget_name, usettings) # upost
        \<and> (\<forall>(k, s) \<in> set upre. s ''func'' \<noteq> None \<and> cls_guard ucls k = None)
        \<and> usettings ''func'' = None
        \<longrightarrow> snd (unary_wrapper utranslate_func ucatalog ucls) = Some (KeyError ''func''))"
    unfolding unary_wrapper_def using unary_wrapper_loop_stops [of upre ucls usettings utranslate_func utarget_name upost] by auto
  from 1 2 3 4 5 6 show ?thesis by blast
qed

theorem factory_does_not_validate_catalog_witness:
  "(''__sub__'', Map.empty) \<in> set (config_items \<lparr>config_items = [(''__add__'', dict_func (\<lambda>(x::int) y. x + y)), (''__sub__'', (Map.empty :: (int \<Rightarrow> int \<Rightarrow> int) settings))], readonly = True, as_attrs = False\<rparr>)
   \<and> config_items \<lparr>config_items = [(''__add__'', dict_func (\<lambda>(x::int) y. x + y)), (''__sub__'', (Map.empty :: (int \<Rightarrow> int \<Rightarrow> int) settings))], readonly = True, as_attrs = False\<rparr> = [(''__add__'', dict_func (\<lambda>(x::int) y. x + y))] @ (''__sub__'', (Map.empty :: (int \<Rightarrow> int \<Rightarrow> int) settings)) # []
   \<and> dict_func (\<lambda>(x::int) y. x + y) ''func'' \<noteq> None
   \<and> cls_guard \<lparr>cls_name = ''Wrapped'', cls_attrs = Map.empty, cls_guard = (\<lambda>n. if n = ''__name__'' then Some (TypeError ''__name__'') else None)\<rparr> ''__add__'' = None
   \<and> (Map.empty :: (int \<Rightarrow> int \<Rightarrow> int) settings) ''func'' = None
   \<and> attach_binary_magic_methods \<lparr>config_items = [], readonly = True, as_attrs = False\<rparr> (\<lambda>(self::int) other (f::int \<Rightarrow> int \<Rightarrow> int). f self other :: int) (Some \<lparr>config_items = [(''__add__'', dict_func (\<lambda>(x::int) y. x + y)), (''__sub__'', (Map.empty :: (int \<Rightarrow> int \<Rightarrow> int) settings))], readonly = True, as_attrs = False\<rparr>) = Inr (binary_wrapper (\<lambda>(self::int) other (f::int \<Rightarrow> int \<Rightarrow> int). f self other :: int) \<lparr>config_items = [(''__add__'', dict_func (\<lambda>(x::int) y. x + y)), (''__sub__'', (Map.empty :: (int \<Rightarrow> int \<Rightarrow> int) settings))], readonly = True, as_attrs = False\<rparr>)
   \<and> snd (binary_wrapper (\<lambda>(self::int) other (f::int \<Rightarrow> int \<Rightarrow> int). f self other :: int) \<lparr>config_items = [(''__add__'', dict_func (\<lambda>(x::int) y. x + y)), (''__sub__'', (Map.empty :: (int \<Rightarrow> int \<Rightarrow> int) settings))], readonly = True, as_attrs = False\<rparr> \<lparr>cls_name = ''Wrapped'', cls_attrs = Map.empty, cls_guard = (\<lambda>n. if n = ''__name__'' then Some (TypeError ''__name__'') else None)\<rparr>) = Some (KeyError ''func'')
   \<and> (''__abs__'', Map.empty) \<in> set (config_items \<lparr>config_items = [(''__neg__'', dict_func (\<lambda>(x::int). - x)), (''__abs__'', (Map.empty :: (int \<Rightarrow> int) settings))], readonly = True, as_attrs = False\<rparr>)
   \<and> config_items \<lparr>config_items = [(''__neg__'', dict_func (\<lambda>(x::int). - x)), (''__abs__'', (Map.empty :: (int \<Rightarrow> int) settings))], readonly = True, as_attrs = False\<rparr> = [(''__neg__'', dict_func (\<lambda>(x::int). - x))] @ (''__abs__'', (Map.empty :: (int \<Rightarrow> int) settings)) # []
   \<and> dict_func (\<lambda>(x::int). - x) ''func'' \<noteq> None
   \<and> cls_guard \<lparr>cls_name = ''Wrapped'', cls_attrs = Map.empty, cls_guard = (\<lambda>n. if n = ''__name__'' then Some (TypeError ''__name__'') else None)\<rparr> ''__neg__'' = None
   \<and> (Map.empty :: (int \<Rightarrow> int) settings) ''func'' = None
   \<and> attach_unary_magic_methods \<lparr>config_items = [], readonly = True, as_attrs = False\<rparr> (\<lambda>(self::int) (f::int \<Rightarrow> int). f self :: int) (Some \<lparr>config_items = [(''__neg__'', dict_func (\<lambda>(x::int). - x)), (''__abs__'', (Map.empty :: (int \<Rightarrow> int) settings))], readonly = True, as_attrs = False\<rparr>) = Inr (unary_wrapper (\<lambda>(self::int) (f::int \<Rightarrow> int). f self :: int) \<lparr>config_items = [(''__neg__'', dict_func (\<lambda>(x::int). - x)), (''__abs__'', (Map.empty :: (int \<Rightarrow> int) settings))], readonly = True, as_attrs = False\<rparr>)
   \<and> snd (unary_wrapper (\<lambda>(self::int) (f::int \<Rightarrow> int). f self :: int) \<lparr>config_items = [(''__neg__'', dict_func (\<lambda>(x::int). - x)), (''__abs__'', (Map.empty :: (int \<Rightarrow> int) settings))], readonly = True, as_attrs = False\<rparr> \<lparr>cls_name = ''Wrapped'', cls_attrs = Map.empty, cls_guard = (\<lambda>n. if n = ''__name__'' then Some (TypeError ''__name__'') else None)\<rparr>) = Some (KeyError ''func'')"
  using factory_does_not_validate_catalog [
    where global_config = "\<lparr>config_items = [], readonly = True, as_attrs = False\<rparr>" and translate_func = "(\<lambda>(self::int) other (f::int \<Rightarrow> int \<Rightarrow> int). f self other :: int)" and config = "Some \<lparr>config_items = [(''__add__'', dict_func (\<lambda>(x::int) y. x + y)), (''__sub__'', (Map.empty :: (int \<Rightarrow> int \<Rightarrow> int) settings))], readonly = True, as_attrs = False\<rparr>"
      and target_name = "''__sub__''" and settings = "Map.empty" and catalog = "\<lparr>config_items = [(''__add__'', dict_func (\<lambda>(x::int) y. x + y)), (''__sub__'', (Map.empty :: (int \<Rightarrow> int \<Rightarrow> int) settings))], readonly = True, as_attrs = False\<rparr>"
      and pre = "[(''__add__'', dict_func (\<lambda>(x::int) y. x + y))]" and post = "[]" and cls = "\<lparr>cls_name = ''Wrapped'', cls_attrs = Map.empty, cls_guard = (\<lambda>n. if n = ''__name__'' then Some (TypeError ''__name__'') else None)\<rparr>"
      and uglobal_config = "\<lparr>config_items = [], readonly = True, as_attrs = False\<rparr>" and utranslate_func = "(\<lambda>(self::int) (f::int \<Rightarrow> int). f self :: int)" and uconfig = "Some \<lparr>config_items = [(''__neg__'', dict_func (\<lambda>(x::int). - x)), (''__abs__'', (Map.empty :: (int \<Rightarrow> int) settings))], readonly = True, as_attrs = False\<rparr>"
      and utarget_name = "''__abs__''" and usettings = "Map.empty" and ucatalog = "\<lparr>config_items = [(''__neg__'', dict_func (\<lambda>(x::int). - x)), (''__abs__'', (Map.empty :: (int \<Rightarrow> int) settings))], readonly = True, as_attrs = False\<rparr>"
      and upre = "[(''__neg__'', dict_func (\<lambda>(x::int). - x))]" and upost = "[]" and ucls = "\<lparr>cls_name = ''Wrapped'', cls_attrs = Map.empty, cls_guard = (\<lambda>n. if n = ''__name__'' then Some (TypeError ''__name__'') else None)\<rparr>"]
  by (simp add: dict_func_def)

subsection \<open>C4: an entry without a function stops the loop where it stands\<close>

text \<open>
  The claim C4 fails on a catalog whose first entry is well-formed and whose second entry
  has no \<^verbatim>\<open>func\<close>: the call raises, and the class has the first operator installed.
\<close>

theorem missing_func_leaves_earlier_operators_installed:
  "binary_wrapper (\<lambda>(self::int) other (f::int \<Rightarrow> int \<Rightarrow> int). f self other :: int) \<lparr>config_items = [(''__add__'', dict_func (\<lambda>(x::int) y. x + y)), (''__sub__'', (Map.empty :: (int \<Rightarrow> int \<Rightarrow> int) settings))], readonly = True, as_attrs = False\<rparr> \<lparr>cls_name = ''Wrapped'', cls_attrs = Map.empty, cls_guard = (\<lambda>n. if n = ''__name__'' then Some (TypeError ''__name__'') else None)\<rparr> = (\<lparr>cls_name = ''Wrapped'', cls_attrs = [''__add__'' \<mapsto> BinaryMethod \<lparr>bm_name = ''__add__'', bm_qualname = ''Wrapped.__add__'', bm_translate_func = (\<lambda>(self::int) other (f::int \<Rightarrow> int \<Rightarrow> int). f self other :: int), bm_func = (\<lambda>(x::int) y. x + y)\<rparr>], cls_guard = (\<lambda>n. if n = ''__name__'' then Some (TypeError ''__name__'') else None)\<rparr>, Some (KeyError ''func''))
   \<and> cls_attrs \<lparr>cls_name = ''Wrapped'', cls_attrs = [''__add__'' \<mapsto> BinaryMethod \<lparr>bm_name = ''__add__'', bm_qualname = ''Wrapped.__add__'', bm_translate_func = (\<lambda>(self::int) other (f::int \<Rightarrow> int \<Rightarrow> int). f self other :: int), bm_func = (\<lambda>(x::int) y. x + y)\<rparr>], cls_guard = (\<lambda>n. if n = ''__name__'' then Some (TypeError ''__name__'') else None)\<rparr> ''__add__'' = Some (BinaryMethod \<lparr>bm_name = ''__add__'', bm_qualname = ''Wrapped.__add__'', bm_translate_func = (\<lambda>(self::int) other (f::int \<Rightarrow> int \<Rightarrow> int). f self other :: int), bm_func = (\<lambda>(x::int) y. x + y)\<rparr>)
   \<and> cls_attrs \<lparr>cls_name = ''Wrapped'', cls_attrs = Map.empty, cls_guard = (\<lambda>n. if n = ''__name__'' then Some (TypeError ''__name__'') else None)\<rparr> ''__add__'' = None"
  by (simp add: binary_wrapper_def dict_func_def setattr_def)

text \<open>
  C4, as the code has it. When the first entry without \<^verbatim>\<open>func\<close> comes after the
  entries \<open>pre\<close>, each of which has a \<^verbatim>\<open>func\<close> and a name that the class lets be
  assigned, applying the modifier raises \<^verbatim>\<open>KeyError('func')\<close> and leaves the class as
  the entries \<open>pre\<close> alone make it: each of their names is an installed method, every
  other attribute is as it was, and the class is unmodified when \<open>pre\<close> is empty.
\<close>

theorem missing_func_stops_wrapper:
  assumes "config_items config = pre @ (target_name, settings) # post"
    and "\<forall>(k, s) \<in> set pre. s ''func'' \<noteq> None \<and> cls_guard cls k = None"
    and "settings ''func'' = None"
  shows "binary_wrapper translate_func config cls =
       (fst (binary_wrapper translate_func (config\<lparr>config_items := pre\<rparr>) cls),
        Some (KeyError ''func''))
     \<and> (\<forall>k \<in> fst ` set pre. \<exists>m.
           cls_attrs (fst (binary_wrapper translate_func config cls)) k = Some (BinaryMethod m))
     \<and> (\<forall>k. k \<notin> fst ` set pre \<longrightarrow>
           cls_attrs (fst (binary_wrapper translate_func config cls)) k = cls_attrs cls k)
     \<and> (pre = [] \<longrightarrow> fst (binary_wrapper translate_func config cls) = cls)"
proof -
  let ?pre = "binary_wrapper_loop translate_func pre cls"
  have stop: "binary_wrapper translate_func config cls = (fst ?pre, Some (KeyError ''func''))"
    unfolding binary_wrapper_def assms(1)
    using assms(2,3) by (rule binary_wrapper_loop_stops)
  have ok: "snd ?pre = None"
    using assms(2) by (simp add: binary_wrapper_loop_ok_iff)
  have 1: "binary_wrapper translate_func config cls =
       (fst (binary_wrapper translate_func (config\<lparr>config_items := pre\<rparr>) cls),
        Some (KeyError ''func''))"
    using stop by (simp add: binary_wrapper_def)
  have 2: "\<forall>k \<in> fst ` set pre. \<exists>m.
           cls_attrs (fst (binary_wrapper translate_func config cls)) k = Some (BinaryMethod m)"
    unfolding stop fst_conv using binary_wrapper_loop_installs_some [OF ok] by blast
  have 3: "\<forall>k. k \<notin> fst ` set pre \<longrightarrow>
           cls_attrs (fst (binary_wrapper translate_func config cls)) k = cls_attrs cls k"
    unfolding stop fst_conv using binary_wrapper_loop_frame by blast
  have 4: "pre = [] \<longrightarrow> fst (binary_wrapper translate_func config cls) = cls"
    unfolding stop fst_conv by simp
  from 1 2 3 4 show ?thesis by blast
qed

theorem missing_func_stops_wrapper_witness:
  "config_items \<lparr>config_items = [(''__add__'', dict_func (\<lambda>(x::int) y. x + y)), (''__sub__'', (Map.empty :: (int \<Rightarrow> int \<Rightarrow> int) settings))], readonly = True, as_attrs = False\<rparr> = [(''__add__'', dict_func (\<lambda>(x::int) y. x + y))] @ (''__sub__'', (Map.empty :: (int \<Rightarrow> int \<Rightarrow> int) settings)) # []
   \<and> dict_func (\<lambda>(x::int) y. x + y) ''func'' \<noteq> None
   \<and> cls_guard \<lparr>cls_name = ''Wrapped'', cls_attrs = Map.empty, cls_guard = (\<lambda>n. if n = ''__name__'' then Some (TypeError ''__name__'') else None)\<rparr> ''__add__'' = None
   \<and> (Map.empty :: (int \<Rightarrow> int \<Rightarrow> int) settings) ''func'' = None
   \<and> binary_wrapper (\<lambda>(self::int) other (f::int \<Rightarrow> int \<Rightarrow> int). f self other :: int) \<lparr>config_items = [(''__add__'', dict_func (\<lambda>(x::int) y. x + y)), (''__sub__'', (Map.empty :: (int \<Rightarrow> int \<Rightarrow> int) settings))], readonly = True, as_attrs = False\<rparr> \<lparr>cls_name = ''Wrapped'', cls_attrs = Map.empty, cls_guard = (\<lambda>n. if n = ''__name__'' then Some (TypeError ''__name__'') else None)\<rparr>
       = (fst (binary_wrapper (\<lambda>(self::int) other (f::int \<Rightarrow> int \<Rightarrow> int). f self other :: int) (\<lparr>config_items = [(''__add__'', dict_func (\<lambda>(x::int) y. x + y)), (''__sub__'', (Map.empty :: (int \<Rightarrow> int \<Rightarrow> int) settings))], readonly = True, as_attrs = False\<rparr>\<lparr>config_items := [(''__add__'', dict_func (\<lambda>(x::int) y. x + y))]\<rparr>) \<lparr>cls_name = ''Wrapped'', cls_attrs = Map.empty, cls_guard = (\<lambda>n. if n = ''__name__'' then Some (TypeError ''__name__'') else None)\<rparr>),
          Some (KeyError ''func''))
   \<and> (\<exists>m. cls_attrs (fst (binary_wrapper (\<lambda>(self::int) other (f::int \<Rightarrow> int \<Rightarrow> int). f self other :: int) \<lparr>config_items = [(''__add__'', dict_func (\<lambda>(x::int) y. x + y)), (''__sub__'', (Map.empty :: (int \<Rightarrow> int \<Rightarrow> int) settings))], readonly = True, as_attrs = False\<rparr> \<lparr>cls_name = ''Wrapped'', cls_attrs = Map.empty, cls_guard = (\<lambda>n. if n = ''__name__'' then Some (TypeError ''__name__'') else None)\<rparr>)) ''__add__'' = Some (BinaryMethod m))
   \<and> cls_attrs (fst (binary_wrapper (\<lambda>(self::int) other (f::int \<Rightarrow> int \<Rightarrow> int). f self other :: int) \<lparr>config_items = [(''__add__'', dict_func (\<lambda>(x::int) y. x + y)), (''__sub__'', (Map.empty :: (int \<Rightarrow> int \<Rightarrow> int) settings))], readonly = True, as_attrs = False\<rparr> \<lparr>cls_name = ''Wrapped'', cls_attrs = Map.empty, cls_guard = (\<lambda>n. if n = ''__name__'' then Some (TypeError ''__name__'') else None)\<rparr>)) ''__sub__'' = None"
  using missing_func_stops_wrapper [of "\<lparr>config_items = [(''__add__'', dict_func (\<lambda>(x::int) y. x + y)), (''__sub__'', (Map.empty :: (int \<Rightarrow> int \<Rightarrow> int) settings))], readonly = True, as_attrs = False\<rparr>" "[(''__add__'', dict_func (\<lambda>(x::int) y. x + y))]" "''__sub__''" "Map.empty" "[]" "\<lparr>cls_name = ''Wrapped'', cls_attrs = Map.empty, cls_guard = (\<lambda>n. if n = ''__name__'' then Some (TypeError ''__name__'') else None)\<rparr>" "(\<lambda>(self::int) other (f::int \<Rightarrow> int \<Rightarrow> int). f self other :: int)"]
  by (auto simp: dict_func_def)

subsection \<open>C5: each installed method keeps the function of its own entry\<close>

text \<open>
  C5. In a catalog with distinct keys, take an entry that the loop gets past: the run over
  the entries up to and including it returns without an exception. Whatever entries come
  after it, the attribute installed under its name is the one that this shorter run
  installs, and using the operator applies the translation function to the
  \<^verbatim>\<open>func\<close> of that entry. The same holds for the unary wrapper.
\<close>

theorem later_installations_leave_earlier_operator:
  "(config_items config = pre @ (target_name, settings) # post
      \<and> distinct (map fst (config_items config))
      \<and> snd (binary_wrapper translate_func
           (config\<lparr>config_items := pre @ [(target_name, settings)]\<rparr>) cls) = None
    \<longrightarrow> (\<exists>func. settings ''func'' = Some func
        \<and> cls_attrs (fst (binary_wrapper translate_func config cls)) target_name
          = cls_attrs (fst (binary_wrapper translate_func
               (config\<lparr>config_items := pre @ [(target_name, settings)]\<rparr>) cls)) target_name
        \<and> invoke_binary (fst (binary_wrapper translate_func config cls)) target_name self other
          = Inr (translate_func self other func)))
   \<and>
   (config_items uconfig = upre @ (utarget_name, usettings) # upost
      \<and> distinct (map fst (config_items uconfig))
      \<and> snd (unary_wrapper utranslate_func
           (uconfig\<lparr>config_items := upre @ [(utarget_name, usettings)]\<rparr>) ucls) = None
    \<longrightarrow> (\<exists>func. usettings ''func'' = Some func
        \<and> cls_attrs (fst (unary_wrapper utranslate_func uconfig ucls)) utarget_name
          = cls_attrs (fst (unary_wrapper utranslate_func
               (uconfig\<lparr>config_items := upre @ [(utarget_name, usettings)]\<rparr>) ucls)) utarget_name
        \<and> invoke_unary (fst (unary_wrapper utranslate_func uconfig ucls)) utarget_name uself
          = Inr (utranslate_func uself func)))"
proof (rule conjI; rule impI)
  assume a: "config_items config = pre @ (target_name, settings) # post
      \<and> distinct (map fst (config_items config))
      \<and> snd (binary_wrapper translate_func
           (config\<lparr>config_items := pre @ [(target_name, settings)]\<rparr>) cls) = None"
  then have a1: "config_items config = pre @ (target_name, settings) # post"
    and a2: "distinct (map fst (config_items config))"
    and a3: "snd (binary_wrapper translate_func
           (config\<lparr>config_items := pre @ [(target_name, settings)]\<rparr>) cls) = None"
    by blast+
  have d: "distinct (map fst (pre @ (target_name, settings) # post))"
    using a2 unfolding a1 .
  then have d': "distinct (map fst (pre @ (target_name, settings) # []))"
    by simp
  have ok: "snd (binary_wrapper_loop translate_func (pre @ [(target_name, settings)]) cls) = None"
    using a3 by (simp add: binary_wrapper_def)
  from binary_wrapper_loop_reached [OF d ok]
  obtain func where f: "settings ''func'' = Some func"
    and whole: "cls_attrs (fst (binary_wrapper_loop translate_func
        (pre @ (target_name, settings) # post) cls)) target_name =
      Some (BinaryMethod \<lparr>bm_name = target_name,
        bm_qualname = cls_name cls @ ''.'' @ target_name,
        bm_translate_func = translate_func, bm_func = func\<rparr>)" (is "_ = Some ?m")
    by blast
  from binary_wrapper_loop_reached [OF d' ok] f
  have part: "cls_attrs (fst (binary_wrapper_loop translate_func
        (pre @ [(target_name, settings)]) cls)) target_name = Some ?m"
    by auto
  have w: "cls_attrs (fst (binary_wrapper translate_func config cls)) target_name = Some ?m"
    using whole by (simp add: binary_wrapper_def a1)
  have p: "cls_attrs (fst (binary_wrapper translate_func
       (config\<lparr>config_items := pre @ [(target_name, settings)]\<rparr>) cls)) target_name = Some ?m"
    using part by (simp add: binary_wrapper_def)
  have call: "invoke_binary (fst (binary_wrapper translate_func config cls)) target_name self other
      = Inr (translate_func self other func)"
    using w by (simp add: invoke_binary_def call_binary_def)
  from f w p call show "(\<exists>func. settings ''func'' = Some func
        \<and> cls_attrs (fst (binary_wrapper translate_func config cls)) target_name
          = cls_attrs (fst (binary_wrapper translate_func
               (config\<lparr>config_items := pre @ [(target_name, settings)]\<rparr>) cls)) target_name
        \<and> invoke_binary (fst (binary_wrapper translate_func config cls)) target_name self other
          = Inr (translate_func self other func))"
    by simp
next
  assume a: "config_items uconfig = upre @ (utarget_name, usettings) # upost
      \<and> distinct (map fst (config_items uconfig))
      \<and> snd (unary_wrapper utranslate_func
           (uconfig\<lparr>config_items := upre @ [(utarget_name, usettings)]\<rparr>) ucls) = None"
  then have a1: "config_items uconfig = upre @ (utarget_name, usettings) # upost"
    and a2: "distinct (map fst (config_items uconfig))"
    and a3: "snd (unary_wrapper utranslate_func
           (uconfig\<lparr>config_items := upre @ [(utarget_name, usettings)]\<rparr>) ucls) = None"
    by blast+
  have d: "distinct (map fst (upre @ (utarget_name, usettings) # upost))"
    using a2 unfolding a1 .
  then have d': "distinct (map fst (upre @ (utarget_name, usettings) # []))"
    by simp
  have ok: "snd (unary_wrapper_loop utranslate_func (upre @ [(utarget_name, usettings)]) ucls) = None"
    using a3 by (simp add: unary_wrapper_def)
  from unary_wrapper_loop_reached [OF d ok]
  obtain func where f: "usettings ''func'' = Some func"
    and whole: "cls_attrs (fst (unary_wrapper_loop utranslate_func
        (upre @ (utarget_name, usettings) # upost) ucls)) utarget_name =
      Some (UnaryMethod \<lparr>um_name = utarget_name,
        um_qualname = cls_name ucls @ ''.'' @ utarget_name,
        um_translate_func = utranslate_func, um_func = func\<rparr>)" (is "_ = Some ?m")
    by blast
  from unary_wrapper_loop_reached [OF d' ok] f
  have part: "cls_attrs (fst (unary_wrapper_loop utranslate_func
        (upre @ [(utarget_name, usettings)]) ucls)) utarget_name = Some ?m"
    by auto
  have w: "cls_attrs (fst (unary_wrapper utranslate_func uconfig ucls)) utarget_name = Some ?m"
    using whole by (simp add: unary_wrapper_def a1)
  have p: "cls_attrs (fst (unary_wrapper utranslate_func
       (uconfig\<lparr>config_items := upre @ [(utarget_name, usettings)]\<rparr>) ucls)) utarget_name = Some ?m"
    using part by (simp add: unary_wrapper_def)
  have call: "invoke_unary (fst (unary_wrapper utranslate_func uconfig ucls)) utarget_name uself
      = Inr (utranslate_func uself func)"
    using w by (simp add: invoke_unary_def call_unary_def)
  from f w p call show "(\<exists>func. usettings ''func'' = Some func
        \<and> cls_attrs (fst (unary_wrapper utranslate_func uconfig ucls)) utarget_name
          = cls_attrs (fst (unary_wrapper utranslate_func
               (uconfig\<lparr>config_items := upre @ [(utarget_name, usettings)]\<rparr>) ucls)) utarget_name
        \<and> invoke_unary (fst (unary_wrapper utranslate_func uconfig ucls)) utarget_name uself
          = Inr (utranslate_func uself func))"
    by simp
qed

theorem later_installations_leave_earlier_operator_witness:
  "(config_items \<lparr>config_items = [(''__add__'', dict_func (\<lambda>(x::int) y. x + y)), (''__sub__'', dict_func (\<lambda>(x::int) y. x - y))], readonly = True, as_attrs = False\<rparr> = [] @ (''__add__'', dict_func (\<lambda>(x::int) y. x + y)) # [(''__sub__'', dict_func (\<lambda>(x::int) y. x - y))]
    \<and> distinct (map fst (config_items \<lparr>config_items = [(''__add__'', dict_func (\<lambda>(x::int) y. x + y)), (''__sub__'', dict_func (\<lambda>(x::int) y. x - y))], readonly = True, as_attrs = False\<rparr>))
    \<and> snd (binary_wrapper (\<lambda>(self::int) other (f::int \<Rightarrow> int \<Rightarrow> int). f self other :: int) (\<lparr>config_items = [(''__add__'', dict_func (\<lambda>(x::int) y. x + y)), (''__sub__'', dict_func (\<lambda>(x::int) y. x - y))], readonly = True, as_attrs = False\<rparr>\<lparr>config_items := [] @ [(''__add__'', dict_func (\<lambda>(x::int) y. x + y))]\<rparr>) \<lparr>cls_name = ''Wrapped'', cls_attrs = Map.empty, cls_guard = (\<lambda>n. if n = ''__name__'' then Some (TypeError ''__name__'') else None)\<rparr>) = None
    \<and> dict_func (\<lambda>(x::int) y. x + y) ''func'' = Some (\<lambda>(x::int) y. x + y)
    \<and> invoke_binary (fst (binary_wrapper (\<lambda>(self::int) other (f::int \<Rightarrow> int \<Rightarrow> int). f self other :: int) \<lparr>config_items = [(''__add__'', dict_func (\<lambda>(x::int) y. x + y)), (''__sub__'', dict_func (\<lambda>(x::int) y. x - y))], readonly = True, as_attrs = False\<rparr> \<lparr>cls_name = ''Wrapped'', cls_attrs = Map.empty, cls_guard = (\<lambda>n. if n = ''__name__'' then Some (TypeError ''__name__'') else None)\<rparr>)) ''__add__'' 3 4 = Inr 7)
   \<and>
   (config_items \<lparr>config_items = [(''__neg__'', dict_func (\<lambda>(x::int). - x)), (''__abs__'', dict_func (\<lambda>(x::int). \<bar>x\<bar>))], readonly = True, as_attrs = False\<rparr> = [] @ (''__neg__'', dict_func (\<lambda>(x::int). - x)) # [(''__abs__'', dict_func (\<lambda>(x::int). \<bar>x\<bar>))]
    \<and> distinct (map fst (config_items \<lparr>config_items = [(''__neg__'', dict_func (\<lambda>(x::int). - x)), (''__abs__'', dict_func (\<lambda>(x::int). \<bar>x\<bar>))], readonly = True, as_attrs = False\<rparr>))
    \<and> snd (unary_wrapper (\<lambda>(self::int) (f::int \<Rightarrow> int). f self :: int) (\<lparr>config_items = [(''__neg__'', dict_func (\<lambda>(x::int). - x)), (''__abs__'', dict_func (\<lambda>(x::int). \<bar>x\<bar>))], readonly = True, as_attrs = False\<rparr>\<lparr>config_items := [] @ [(''__neg__'', dict_func (\<lambda>(x::int). - x))]\<rparr>) \<lparr>cls_name = ''Wrapped'', cls_attrs = Map.empty, cls_guard = (\<lambda>n. if n = ''__name__'' then Some (TypeError ''__name__'') else None)\<rparr>) = None
    \<and> dict_func (\<lambda>(x::int). - x) ''func'' = Some (\<lambda>(x::int). - x)
    \<and> invoke_unary (fst (unary_wrapper (\<lambda>(self::int) (f::int \<Rightarrow> int). f self :: int) \<lparr>config_items = [(''__neg__'', dict_func (\<lambda>(x::int). - x)), (''__abs__'', dict_func (\<lambda>(x::int). \<bar>x\<bar>))], readonly = True, as_attrs = False\<rparr> \<lparr>cls_name = ''Wrapped'', cls_attrs = Map.empty, cls_guard = (\<lambda>n. if n = ''__name__'' then Some (TypeError ''__name__'') else None)\<rparr>)) ''__neg__'' 5 = Inr (- 5))"
  using later_installations_leave_earlier_operator [
    where config = "\<lparr>config_items = [(''__add__'', dict_func (\<lambda>(x::int) y. x + y)), (''__sub__'', dict_func (\<lambda>(x::int) y. x - y))], readonly = True, as_attrs = False\<rparr>" and pre = "[]" and target_name = "''__add__''"
      and settings = "dict_func (\<lambda>(x::int) y. x + y)" and post = "[(''__sub__'', dict_func (\<lambda>(x::int) y. x - y))]"
      and translate_func = "(\<lambda>(self::int) other (f::int \<Rightarrow> int \<Rightarrow> int). f self other :: int)" and cls = "\<lparr>cls_name = ''Wrapped'', cls_attrs = Map.empty, cls_guard = (\<lambda>n. if n = ''__name__'' then Some (TypeError ''__name__'') else None)\<rparr>"
      and self = 3 and other = 4
      and uconfig = "\<lparr>config_items = [(''__neg__'', dict_func (\<lambda>(x::int). - x)), (''__abs__'', dict_func (\<lambda>(x::int). \<bar>x\<bar>))], readonly = True, as_attrs = False\<rparr>" and upre = "[]" and utarget_name = "''__neg__''"
      and usettings = "dict_func (\<lambda>(x::int). - x)" and upost = "[(''__abs__'', dict_func (\<lambda>(x::int). \<bar>x\<bar>))]"
      and utranslate_func = "(\<lambda>(self::int) (f::int \<Rightarrow> int). f self :: int)" and ucls = "\<lparr>cls_name = ''Wrapped'', cls_attrs = Map.empty, cls_guard = (\<lambda>n. if n = ''__name__'' then Some (TypeError ''__name__'') else None)\<rparr>"
      and uself = 5]
  by (auto simp: dict_func_def binary_wrapper_def unary_wrapper_def setattr_def)

subsection \<open>C6: the contents of the built-in catalogs\<close>

text \<open>
  C6. The keys of the built-in binary catalog are the six comparisons, the seven arithmetic
  operators, their seven reflected counterparts, the three bitwise operators and their three
  reflected counterparts, in this order and no others; each is mapped to NumPy's function
  of that name (with the arguments swapped for a reflected one). The keys of the built-in
  unary catalog are negate, plus, absolute value and invert.
\<close>

theorem builtin_catalogs_contents:
  "map fst (config_items (binary_magic_config np)) =
     [''__eq__'', ''__ne__'', ''__lt__'', ''__gt__'', ''__le__'', ''__ge__'', ''__add__'', ''__sub__'', ''__mul__'', ''__pow__'', ''__mod__'', ''__floordiv__'', ''__truediv__'', ''__radd__'', ''__rsub__'', ''__rmul__'', ''__rpow__'', ''__rmod__'', ''__rfloordiv__'', ''__rtruediv__'', ''__and__'', ''__or__'', ''__xor__'', ''__rand__'', ''__ror__'', ''__rxor__'']
   \<and> getitem_func (binary_magic_config np) ''__eq__'' = Inr (np_equal np)
   \<and> getitem_func (binary_magic_config np) ''__ne__'' = Inr (np_not_equal np)
   \<and> getitem_func (binary_magic_config np) ''__lt__'' = Inr (np_less np)
   \<and> getitem_func (binary_magic_config np) ''__gt__'' = Inr (np_greater np)
   \<and> getitem_func (binary_magic_config np) ''__le__'' = Inr (np_less_equal np)
   \<and> getitem_func (binary_magic_config np) ''__ge__'' = Inr (np_greater_equal np)
   \<and> getitem_func (binary_magic_config np) ''__add__'' = Inr (np_add np)
   \<and> getitem_func (binary_magic_config np) ''__sub__'' = Inr (np_subtract np)
   \<and> getitem_func (binary_magic_config np) ''__mul__'' = Inr (np_multiply np)
   \<and> getitem_func (binary_magic_config np) ''__pow__'' = Inr (np_power np)
   \<and> getitem_func (binary_magic_config np) ''__mod__'' = Inr (np_mod np)
   \<and> getitem_func (binary_magic_config np) ''__floordiv__'' = Inr (np_floor_divide np)
   \<and> getitem_func (binary_magic_config np) ''__truediv__'' = Inr (np_true_divide np)
   \<and> getitem_func (binary_magic_config np) ''__radd__'' = Inr (\<lambda>x y. np_add np y x)
   \<and> getitem_func (binary_magic_config np) ''__rsub__'' = Inr (\<lambda>x y. np_subtract np y x)
   \<and> getitem_func (binary_magic_config np) ''__rmul__'' = Inr (\<lambda>x y. np_multiply np y x)
   \<and> getitem_func (binary_magic_config np) ''__rpow__'' = Inr (\<lambda>x y. np_power np y x)
   \<and> getitem_func (binary_magic_config np) ''__rmod__'' = Inr (\<lambda>x y. np_mod np y x)
   \<and> getitem_func (binary_magic_config np) ''__rfloordiv__'' = Inr (\<lambda>x y. np_floor_divide np y x)
   \<and> getitem_func (binary_magic_config np) ''__rtruediv__'' = Inr (\<lambda>x y. np_true_divide np y x)
   \<and> getitem_func (binary_magic_config np) ''__and__'' = Inr (np_bitwise_and np)
   \<and> getitem_func (binary_magic_config np) ''__or__'' = Inr (np_bitwise_or np)
   \<and> getitem_func (binary_magic_config np) ''__xor__'' = Inr (np_bitwise_xor np)
   \<and> getitem_func (binary_magic_config np) ''__rand__'' = Inr (\<lambda>x y. np_bitwise_and np y x)
   \<and> getitem_func (binary_magic_config np) ''__ror__'' = Inr (\<lambda>x y. np_bitwise_or np y x)
   \<and> getitem_func (binary_magic_config np) ''__rxor__'' = Inr (\<lambda>x y. np_bitwise_xor np y x)
   \<and> map fst (config_items (unary_magic_config np)) = [''__neg__'', ''__pos__'', ''__abs__'', ''__invert__'']
   \<and> getitem_func (unary_magic_config np) ''__neg__'' = Inr (np_negative np)
   \<and> getitem_func (unary_magic_config np) ''__pos__'' = Inr (np_positive np)
   \<and> getitem_func (unary_magic_config np) ''__abs__'' = Inr (np_absolute np)
   \<and> getitem_func (unary_magic_config np) ''__invert__'' = Inr (np_invert np)"
  by (simp_all add: getitem_func_def binary_magic_config_def unary_magic_config_def dict_func_def)

subsection \<open>C7: attaching twice\<close>

text \<open>
  C7. Applying the same modifier a second time leaves the class, and the outcome of the
  call, exactly as the first application did.
\<close>

theorem attaching_twice_is_attaching_once:
  "binary_wrapper translate_func config (fst (binary_wrapper translate_func config cls))
     = binary_wrapper translate_func config cls
   \<and> unary_wrapper utranslate_func uconfig (fst (unary_wrapper utranslate_func uconfig ucls))
     = unary_wrapper utranslate_func uconfig ucls"
  by (simp add: binary_wrapper_def unary_wrapper_def binary_wrapper_loop_idem
        unary_wrapper_loop_idem)

subsection \<open>C8: the built-in catalogs are read-only\<close>

text \<open>
  C8. Setting, replacing or deleting an entry of a built-in catalog fails, for every key and
  value; and after any sequence of decorations the two catalogs are what they were.
\<close>

theorem builtin_catalogs_read_only:
  "config_setitem (binary_magic_config np) k v = Inl (TypeError ''Config is read-only'')
   \<and> config_delitem (binary_magic_config np) k = Inl (TypeError ''Config is read-only'')
   \<and> config_setitem (unary_magic_config np) k uv = Inl (TypeError ''Config is read-only'')
   \<and> config_delitem (unary_magic_config np) k = Inl (TypeError ''Config is read-only'')
   \<and> obj_binary_magic_config (decorate_all st ds) = obj_binary_magic_config st
   \<and> obj_unary_magic_config (decorate_all st ds) = obj_unary_magic_config st"
  by (simp add: config_setitem_def config_delitem_def binary_magic_config_def
        unary_magic_config_def decorate_all_keeps_configs)

subsection \<open>C9: the defaults of an installed method can be overridden\<close>

text \<open>
  C9. Under the conditions of C1, the attribute installed under an entry's name is a method
  with two more parameters, whose defaults are the translation function and the entry's
  \<^verbatim>\<open>func\<close>: called with a third argument \<open>g\<close> it returns \<open>g\<close> applied to the
  instance, the operand and \<^verbatim>\<open>func\<close>, and with a fourth argument \<open>h\<close> as well,
  \<open>g\<close> applied to \<open>h\<close>. The unary method has the same two parameters after
  \<^verbatim>\<open>self\<close>.
\<close>

theorem installed_operator_defaults_can_be_overridden:
  "(attach_binary_magic_methods global_config translate_func config = Inr wrapper
      \<and> catalog = (case config of None \<Rightarrow> global_config | Some c \<Rightarrow> c)
      \<and> distinct (map fst (config_items catalog))
      \<and> wrapper cls = (cls', None)
      \<and> (target_name, settings) \<in> set (config_items catalog)
    \<longrightarrow> (\<exists>m func. settings ''func'' = Some func
           \<and> cls_attrs cls' target_name = Some (BinaryMethod m)
           \<and> call_binary m self other None None = translate_func self other func
           \<and> call_binary m self other (Some g) None = g self other func
           \<and> call_binary m self other (Some g) (Some h) = g self other h))
   \<and>
   (attach_unary_magic_methods uglobal_config utranslate_func uconfig = Inr uwrapper
      \<and> ucatalog = (case uconfig of None \<Rightarrow> uglobal_config | Some c \<Rightarrow> c)
      \<and> distinct (map fst (config_items ucatalog))
      \<and> uwrapper ucls = (ucls', None)
      \<and> (utarget_name, usettings) \<in> set (config_items ucatalog)
    \<longrightarrow> (\<exists>m func. usettings ''func'' = Some func
           \<and> cls_attrs ucls' utarget_name = Some (UnaryMethod m)
           \<and> call_unary m uself None None = utranslate_func uself func
           \<and> call_unary m uself (Some ug) None = ug uself func
           \<and> call_unary m uself (Some ug) (Some uh) = ug uself uh))"
proof (rule conjI; rule impI)
  assume a: "attach_binary_magic_methods global_config translate_func config = Inr wrapper
      \<and> catalog = (case config of None \<Rightarrow> global_config | Some c \<Rightarrow> c)
      \<and> distinct (map fst (config_items catalog))
      \<and> wrapper cls = (cls', None)
      \<and> (target_name, settings) \<in> set (config_items catalog)"
  then have a1: "attach_binary_magic_methods global_config translate_func config = Inr wrapper"
    and a2: "catalog = (case config of None \<Rightarrow> global_config | Some c \<Rightarrow> c)"
    and a3: "distinct (map fst (config_items catalog))"
    and a4: "wrapper cls = (cls', None)"
    and a5: "(target_name, settings) \<in> set (config_items catalog)"
    by blast+
  have w: "wrapper = binary_wrapper translate_func catalog"
    using a1 unfolding a2 by (simp add: attach_binary_magic_methods_def Let_def)
  let ?loop = "binary_wrapper_loop translate_func (config_items catalog) cls"
  have r: "?loop = (cls', None)" using a4 unfolding w by (simp add: binary_wrapper_def)
  then have "snd ?loop = None" by simp
  from binary_wrapper_loop_installed [OF this a3 a5]
  obtain func where f: "settings ''func'' = Some func"
    and i: "cls_attrs (fst ?loop) target_name =
      Some (BinaryMethod \<lparr>bm_name = target_name,
        bm_qualname = cls_name cls @ ''.'' @ target_name,
        bm_translate_func = translate_func, bm_func = func\<rparr>)" (is "_ = Some (BinaryMethod ?m)")
    by blast
  have i': "cls_attrs cls' target_name = Some (BinaryMethod ?m)" using i r by simp
  have c0: "call_binary ?m self other None None = translate_func self other func"
    by (simp add: call_binary_def)
  have c1: "call_binary ?m self other (Some g) None = g self other func"
    by (simp add: call_binary_def)
  have c2: "call_binary ?m self other (Some g) (Some h) = g self other h"
    by (simp add: call_binary_def)
  from f i' c0 c1 c2 show "(\<exists>m func. settings ''func'' = Some func
           \<and> cls_attrs cls' target_name = Some (BinaryMethod m)
           \<and> call_binary m self other None None = translate_func self other func
           \<and> call_binary m self other (Some g) None = g self other func
           \<and> call_binary m self other (Some g) (Some h) = g self other h)"
    by blast
next
  assume a: "attach_unary_magic_methods uglobal_config utranslate_func uconfig = Inr uwrapper
      \<and> ucatalog = (case uconfig of None \<Rightarrow> uglobal_config | Some c \<Rightarrow> c)
      \<and> distinct (map fst (config_items ucatalog))
      \<and> uwrapper ucls = (ucls', None)
      \<and> (utarget_name, usettings) \<in> set (config_items ucatalog)"
  then have a1: "attach_unary_magic_methods uglobal_config utranslate_func uconfig = Inr uwrapper"
    and a2: "ucatalog = (case uconfig of None \<Rightarrow> uglobal_config | Some c \<Rightarrow> c)"
    and a3: "distinct (map fst (config_items ucatalog))"
    and a4: "uwrapper ucls = (ucls', None)"
    and a5: "(utarget_name, usettings) \<in> set (config_items ucatalog)"
    by blast+
  have w: "uwrapper = unary_wrapper utranslate_func ucatalog"
    using a1 unfolding a2 by (simp add: attach_unary_magic_methods_def Let_def)
  let ?loop = "unary_wrapper_loop utranslate_func (config_items ucatalog) ucls"
  have r: "?loop = (ucls', None)" using a4 unfolding w by (simp add: unary_wrapper_def)
  then have "snd ?loop = None" by simp
  from unary_wrapper_loop_installed [OF this a3 a5]
  obtain func where f: "usettings ''func'' = Some func"
    and i: "cls_attrs (fst ?loop) utarget_name =
      Some (UnaryMethod \<lparr>um_name = utarget_name,
        um_qualname = cls_name ucls @ ''.'' @ utarget_name,
        um_translate_func = utranslate_func, um_func = func\<rparr>)" (is "_ = Some (UnaryMethod ?m)")
    by blast
  have i': "cls_attrs ucls' utarget_name = Some (UnaryMethod ?m)" using i r by simp
  have c0: "call_unary ?m uself None None = utranslate_func uself func"
    by (simp add: call_unary_def)
  have c1: "call_unary ?m uself (Some ug) None = ug uself func"
    by (simp add: call_unary_def)
  have c2: "call_unary ?m uself (Some ug) (Some uh) = ug uself uh"
    by (simp add: call_unary_def)
  from f i' c0 c1 c2 show "(\<exists>m func. usettings ''func'' = Some func
           \<and> cls_attrs ucls' utarget_name = Some (UnaryMethod m)
           \<and> call_unary m uself None None = utranslate_func uself func
           \<and> call_unary m uself (Some ug) None = ug uself func
           \<and> call_unary m uself (Some ug) (Some uh) = ug uself uh)"
    by blast
qed

theorem installed_operator_defaults_can_be_overridden_witness:
  "(attach_binary_magic_methods \<lparr>config_items = [], readonly = True, as_attrs = False\<rparr> (\<lambda>(self::int) other (f::int \<Rightarrow> int \<Rightarrow> int). f self other :: int) (Some \<lparr>config_items = [(''__add__'', dict_func (\<lambda>(x::int) y. x + y))], readonly = True, as_attrs = False\<rparr>) = Inr (binary_wrapper (\<lambda>(self::int) other (f::int \<Rightarrow> int \<Rightarrow> int). f self other :: int) \<lparr>config_items = [(''__add__'', dict_func (\<lambda>(x::int) y. x + y))], readonly = True, as_attrs = False\<rparr>)
    \<and> distinct (map fst (config_items \<lparr>config_items = [(''__add__'', dict_func (\<lambda>(x::int) y. x + y))], readonly = True, as_attrs = False\<rparr>))
    \<and> binary_wrapper (\<lambda>(self::int) other (f::int \<Rightarrow> int \<Rightarrow> int). f self other :: int) \<lparr>config_items = [(''__add__'', dict_func (\<lambda>(x::int) y. x + y))], readonly = True, as_attrs = False\<rparr> \<lparr>cls_name = ''Wrapped'', cls_attrs = Map.empty, cls_guard = (\<lambda>n. if n = ''__name__'' then Some (TypeError ''__name__'') else None)\<rparr> = (\<lparr>cls_name = ''Wrapped'', cls_attrs = [''__add__'' \<mapsto> BinaryMethod \<lparr>bm_name = ''__add__'', bm_qualname = ''Wrapped.__add__'', bm_translate_func = (\<lambda>(self::int) other (f::int \<Rightarrow> int \<Rightarrow> int). f self other :: int), bm_func = (\<lambda>(x::int) y. x + y)\<rparr>], cls_guard = (\<lambda>n. if n = ''__name__'' then Some (TypeError ''__name__'') else None)\<rparr>, None)
    \<and> (''__add__'', dict_func (\<lambda>(x::int) y. x + y)) \<in> set (config_items \<lparr>config_items = [(''__add__'', dict_func (\<lambda>(x::int) y. x + y))], readonly = True, as_attrs = False\<rparr>)
    \<and> cls_attrs \<lparr>cls_name = ''Wrapped'', cls_attrs = [''__add__'' \<mapsto> BinaryMethod \<lparr>bm_name = ''__add__'', bm_qualname = ''Wrapped.__add__'', bm_translate_func = (\<lambda>(self::int) other (f::int \<Rightarrow> int \<Rightarrow> int). f self other :: int), bm_func = (\<lambda>(x::int) y. x + y)\<rparr>], cls_guard = (\<lambda>n. if n = ''__name__'' then Some (TypeError ''__name__'') else None)\<rparr> ''__add__'' = Some (BinaryMethod \<lparr>bm_name = ''__add__'', bm_qualname = ''Wrapped.__add__'', bm_translate_func = (\<lambda>(self::int) other (f::int \<Rightarrow> int \<Rightarrow> int). f self other :: int), bm_func = (\<lambda>(x::int) y. x + y)\<rparr>)
    \<and> call_binary \<lparr>bm_name = ''__add__'', bm_qualname = ''Wrapped.__add__'', bm_translate_func = (\<lambda>(self::int) other (f::int \<Rightarrow> int \<Rightarrow> int). f self other :: int), bm_func = (\<lambda>(x::int) y. x + y)\<rparr> 3 4 None None = 7
    \<and> call_binary \<lparr>bm_name = ''__add__'', bm_qualname = ''Wrapped.__add__'', bm_translate_func = (\<lambda>(self::int) other (f::int \<Rightarrow> int \<Rightarrow> int). f self other :: int), bm_func = (\<lambda>(x::int) y. x + y)\<rparr> 3 4 (Some (\<lambda>(self::int) other (f::int \<Rightarrow> int \<Rightarrow> int). 10 * f self other)) None = 70
    \<and> call_binary \<lparr>bm_name = ''__add__'', bm_qualname = ''Wrapped.__add__'', bm_translate_func = (\<lambda>(self::int) other (f::int \<Rightarrow> int \<Rightarrow> int). f self other :: int), bm_func = (\<lambda>(x::int) y. x + y)\<rparr> 3 4 (Some (\<lambda>(self::int) other (f::int \<Rightarrow> int \<Rightarrow> int). 10 * f self other)) (Some (\<lambda>x y. x * y)) = 120)
   \<and>
   (attach_unary_magic_methods \<lparr>config_items = [], readonly = True, as_attrs = False\<rparr> (\<lambda>(self::int) (f::int \<Rightarrow> int). f self :: int) (Some \<lparr>config_items = [(''__neg__'', dict_func (\<lambda>(x::int). - x))], readonly = True, as_attrs = False\<rparr>) = Inr (unary_wrapper (\<lambda>(self::int) (f::int \<Rightarrow> int). f self :: int) \<lparr>config_items = [(''__neg__'', dict_func (\<lambda>(x::int). - x))], readonly = True, as_attrs = False\<rparr>)
    \<and> distinct (map fst (config_items \<lparr>config_items = [(''__neg__'', dict_func (\<lambda>(x::int). - x))], readonly = True, as_attrs = False\<rparr>))
    \<and> unary_wrapper (\<lambda>(self::int) (f::int \<Rightarrow> int). f self :: int) \<lparr>config_items = [(''__neg__'', dict_func (\<lambda>(x::int). - x))], readonly = True, as_attrs = False\<rparr> \<lparr>cls_name = ''Wrapped'', cls_attrs = Map.empty, cls_guard = (\<lambda>n. if n = ''__name__'' then Some (TypeError ''__name__'') else None)\<rparr> = (\<lparr>cls_name = ''Wrapped'', cls_attrs = [''__neg__'' \<mapsto> UnaryMethod \<lparr>um_name = ''__neg__'', um_qualname = ''Wrapped.__neg__'', um_translate_func = (\<lambda>(self::int) (f::int \<Rightarrow> int). f self :: int), um_func = (\<lambda>(x::int). - x)\<rparr>], cls_guard = (\<lambda>n. if n = ''__name__'' then Some (TypeError ''__name__'') else None)\<rparr>, None)
    \<and> (''__neg__'', dict_func (\<lambda>(x::int). - x)) \<in> set (config_items \<lparr>config_items = [(''__neg__'', dict_func (\<lambda>(x::int). - x))], readonly = True, as_attrs = False\<rparr>)
    \<and> cls_attrs \<lparr>cls_name = ''Wrapped'', cls_attrs = [''__neg__'' \<mapsto> UnaryMethod \<lparr>um_name = ''__neg__'', um_qualname = ''Wrapped.__neg__'', um_translate_func = (\<lambda>(self::int) (f::int \<Rightarrow> int). f self :: int), um_func = (\<lambda>(x::int). - x)\<rparr>], cls_guard = (\<lambda>n. if n = ''__name__'' then Some (TypeError ''__name__'') else None)\<rparr> ''__neg__'' = Some (UnaryMethod \<lparr>um_name = ''__neg__'', um_qualname = ''Wrapped.__neg__'', um_translate_func = (\<lambda>(self::int) (f::int \<Rightarrow> int). f self :: int), um_func = (\<lambda>(x::int). - x)\<rparr>)
    \<and> call_unary \<lparr>um_name = ''__neg__'', um_qualname = ''Wrapped.__neg__'', um_translate_func = (\<lambda>(self::int) (f::int \<Rightarrow> int). f self :: int), um_func = (\<lambda>(x::int). - x)\<rparr> 5 None None = - 5
    \<and> call_unary \<lparr>um_name = ''__neg__'', um_qualname = ''Wrapped.__neg__'', um_translate_func = (\<lambda>(self::int) (f::int \<Rightarrow> int). f self :: int), um_func = (\<lambda>(x::int). - x)\<rparr> 5 (Some (\<lambda>(self::int) (f::int \<Rightarrow> int). 10 * f self)) None = - 50
    \<and> call_unary \<lparr>um_name = ''__neg__'', um_qualname = ''Wrapped.__neg__'', um_translate_func = (\<lambda>(self::int) (f::int \<Rightarrow> int). f self :: int), um_func = (\<lambda>(x::int). - x)\<rparr> 5 (Some (\<lambda>(self::int) (f::int \<Rightarrow> int). 10 * f self)) (Some (\<lambda>x. x + 1)) = 60)"
  using installed_operator_defaults_can_be_overridden [
    where global_config = "\<lparr>config_items = [], readonly = True, as_attrs = False\<rparr>" and translate_func = "(\<lambda>(self::int) other (f::int \<Rightarrow> int \<Rightarrow> int). f self other :: int)" and config = "Some \<lparr>config_items = [(''__add__'', dict_func (\<lambda>(x::int) y. x + y))], readonly = True, as_attrs = False\<rparr>"
      and wrapper = "binary_wrapper (\<lambda>(self::int) other (f::int \<Rightarrow> int \<Rightarrow> int). f self other :: int) \<lparr>config_items = [(''__add__'', dict_func (\<lambda>(x::int) y. x + y))], readonly = True, as_attrs = False\<rparr>" and catalog = "\<lparr>config_items = [(''__add__'', dict_func (\<lambda>(x::int) y. x + y))], readonly = True, as_attrs = False\<rparr>"
      and cls = "\<lparr>cls_name = ''Wrapped'', cls_attrs = Map.empty, cls_guard = (\<lambda>n. if n = ''__name__'' then Some (TypeError ''__name__'') else None)\<rparr>" and cls' = "\<lparr>cls_name = ''Wrapped'', cls_attrs = [''__add__'' \<mapsto> BinaryMethod \<lparr>bm_name = ''__add__'', bm_qualname = ''Wrapped.__add__'', bm_translate_func = (\<lambda>(self::int) other (f::int \<Rightarrow> int \<Rightarrow> int). f self other :: int), bm_func = (\<lambda>(x::int) y. x + y)\<rparr>], cls_guard = (\<lambda>n. if n = ''__name__'' then Some (TypeError ''__name__'') else None)\<rparr>"
      and target_name = "''__add__''" and settings = "dict_func (\<lambda>(x::int) y. x + y)"
      and self = 3 and other = 4 and g = "(\<lambda>(self::int) other (f::int \<Rightarrow> int \<Rightarrow> int). 10 * f self other)" and h = "\<lambda>x y. x * y"
      and uglobal_config = "\<lparr>config_items = [], readonly = True, as_attrs = False\<rparr>" and utranslate_func = "(\<lambda>(self::int) (f::int \<Rightarrow> int). f self :: int)" and uconfig = "Some \<lparr>config_items = [(''__neg__'', dict_func (\<lambda>(x::int). - x))], readonly = True, as_attrs = False\<rparr>"
      and uwrapper = "unary_wrapper (\<lambda>(self::int) (f::int \<Rightarrow> int). f self :: int) \<lparr>config_items = [(''__neg__'', dict_func (\<lambda>(x::int). - x))], readonly = True, as_attrs = False\<rparr>" and ucatalog = "\<lparr>config_items = [(''__neg__'', dict_func (\<lambda>(x::int). - x))], readonly = True, as_attrs = False\<rparr>"
      and ucls = "\<lparr>cls_name = ''Wrapped'', cls_attrs = Map.empty, cls_guard = (\<lambda>n. if n = ''__name__'' then Some (TypeError ''__name__'') else None)\<rparr>" and ucls' = "\<lparr>cls_name = ''Wrapped'', cls_attrs = [''__neg__'' \<mapsto> UnaryMethod \<lparr>um_name = ''__neg__'', um_qualname = ''Wrapped.__neg__'', um_translate_func = (\<lambda>(self::int) (f::int \<Rightarrow> int). f self :: int), um_func = (\<lambda>(x::int). - x)\<rparr>], cls_guard = (\<lambda>n. if n = ''__name__'' then Some (TypeError ''__name__'') else None)\<rparr>"
      and utarget_name = "''__neg__''" and usettings = "dict_func (\<lambda>(x::int). - x)"
      and uself = 5 and ug = "(\<lambda>(self::int) (f::int \<Rightarrow> int). 10 * f self)" and uh = "\<lambda>x. x + 1"]
  by (simp add: attach_binary_magic_methods_def attach_unary_magic_methods_def
        binary_wrapper_def unary_wrapper_def dict_func_def setattr_def
        call_binary_def call_unary_def)

subsection \<open>C10: the layout of stacked images\<close>

text \<open>
  The claim C10 fails for images whose elements are not 8-bit: the result has the element
  type \<^verbatim>\<open>np.uint8\<close>, and NumPy converts what is assigned into it. For 16-bit unsigned
  elements the conversion keeps the low 8 bits, so that an element 300 of \<open>a\<close> is stored
  as 44, by both functions.
\<close>

theorem stacked_block_differs_from_16_bit_image:
  "(case hstack_image_arrays (ucast :: 16 word \<Rightarrow> 8 word) \<lparr>shape_h = 1, shape_w = 1, shape_d = 1, elems = (\<lambda>i j k. 300 :: 16 word)\<rparr> \<lparr>shape_h = 1, shape_w = 1, shape_d = 1, elems = (\<lambda>i j k. 7 :: 16 word)\<rparr> of
      Inl e \<Rightarrow> None
    | Inr c \<Rightarrow> map_option unat (at c 0 0 0)) = Some 44
   \<and> (case vstack_image_arrays (ucast :: 16 word \<Rightarrow> 8 word) \<lparr>shape_h = 1, shape_w = 1, shape_d = 1, elems = (\<lambda>i j k. 300 :: 16 word)\<rparr> \<lparr>shape_h = 1, shape_w = 1, shape_d = 1, elems = (\<lambda>i j k. 7 :: 16 word)\<rparr> of
      Inl e \<Rightarrow> None
    | Inr c \<Rightarrow> map_option unat (at c 0 0 0)) = Some 44
   \<and> map_option unat (at \<lparr>shape_h = 1, shape_w = 1, shape_d = 1, elems = (\<lambda>i j k. 300 :: 16 word)\<rparr> 0 0 0) = Some 300"
  by (simp add: hstack_image_arrays_result vstack_image_arrays_result at_def)

text \<open>
  C10, as the code has it. For images \<open>a\<close> of shape \<open>(h1, w1, d)\<close> and \<open>b\<close> of
  shape \<open>(h2, w2, d)\<close>, \<^verbatim>\<open>hstack_image_arrays\<close> returns an 8-bit unsigned array of
  shape \<open>(max h1 h2, w1 + w2, d)\<close> whose element at \<open>(i, j, k)\<close> is that of \<open>a\<close>,
  converted to 8 bits, in the top-left block, that of \<open>b\<close> at \<open>(i, j - w1, k)\<close>,
  converted, in the block of the columns from \<open>w1\<close>, and 255 elsewhere;
  \<^verbatim>\<open>vstack_image_arrays\<close> returns an array of shape \<open>(h1 + h2, max w1 w2, d)\<close> with
  \<open>b\<close> in the block of the rows from \<open>h1\<close>. For 8-bit images the conversion
  \<open>astype\<close> is the identity and the blocks are \<open>a\<close> and \<open>b\<close> themselves.
\<close>

theorem stacked_image_layout:
  fixes a b :: "'e array3d" and astype :: "'e \<Rightarrow> 8 word"
  assumes "shape_d b = shape_d a"
  shows "(\<exists>c. hstack_image_arrays astype a b = Inr c
        \<and> shape_h c = max (shape_h a) (shape_h b)
        \<and> shape_w c = shape_w a + shape_w b
        \<and> shape_d c = shape_d a
        \<and> at c i j k =
            (if i < shape_h a \<and> j < shape_w a \<and> k < shape_d a
             then map_option astype (at a i j k)
             else if i < shape_h b \<and> shape_w a \<le> j \<and> j < shape_w a + shape_w b \<and> k < shape_d a
             then map_option astype (at b i (j - shape_w a) k)
             else if i < max (shape_h a) (shape_h b) \<and> j < shape_w a + shape_w b \<and> k < shape_d a
             then Some 255
             else None))
     \<and> (\<exists>c. vstack_image_arrays astype a b = Inr c
        \<and> shape_h c = shape_h a + shape_h b
        \<and> shape_w c = max (shape_w a) (shape_w b)
        \<and> shape_d c = shape_d a
        \<and> at c i j k =
            (if i < shape_h a \<and> j < shape_w a \<and> k < shape_d a
             then map_option astype (at a i j k)
             else if shape_h a \<le> i \<and> i < shape_h a + shape_h b \<and> j < shape_w b \<and> k < shape_d a
             then map_option astype (at b (i - shape_h a) j k)
             else if i < shape_h a + shape_h b \<and> j < max (shape_w a) (shape_w b) \<and> k < shape_d a
             then Some 255
             else None))"
proof (rule conjI)
  show "(\<exists>c. hstack_image_arrays astype a b = Inr c
        \<and> shape_h c = max (shape_h a) (shape_h b)
        \<and> shape_w c = shape_w a + shape_w b
        \<and> shape_d c = shape_d a
        \<and> at c i j k =
            (if i < shape_h a \<and> j < shape_w a \<and> k < shape_d a
             then map_option astype (at a i j k)
             else if i < shape_h b \<and> shape_w a \<le> j \<and> j < shape_w a + shape_w b \<and> k < shape_d a
             then map_option astype (at b i (j - shape_w a) k)
             else if i < max (shape_h a) (shape_h b) \<and> j < shape_w a + shape_w b \<and> k < shape_d a
             then Some 255
             else None))"
    unfolding hstack_image_arrays_result [OF assms]
    using assms by (auto simp: at_def)
next
  show "(\<exists>c. vstack_image_arrays astype a b = Inr c
        \<and> shape_h c = shape_h a + shape_h b
        \<and> shape_w c = max (shape_w a) (shape_w b)
        \<and> shape_d c = shape_d a
        \<and> at c i j k =
            (if i < shape_h a \<and> j < shape_w a \<and> k < shape_d a
             then map_option astype (at a i j k)
             else if shape_h a \<le> i \<and> i < shape_h a + shape_h b \<and> j < shape_w b \<and> k < shape_d a
             then map_option astype (at b (i - shape_h a) j k)
             else if i < shape_h a + shape_h b \<and> j < max (shape_w a) (shape_w b) \<and> k < shape_d a
             then Some 255
             else None))"
    unfolding vstack_image_arrays_result [OF assms]
    using assms by (auto simp: at_def)
qed

theorem stacked_image_layout_witness:
  "shape_d \<lparr>shape_h = 2, shape_w = 1, shape_d = 1, elems = (\<lambda>i j k. 9 :: 8 word)\<rparr> = shape_d \<lparr>shape_h = 1, shape_w = 2, shape_d = 1, elems = (\<lambda>i j k. 7 :: 8 word)\<rparr>
   \<and> (case hstack_image_arrays (\<lambda>x :: 8 word. x) \<lparr>shape_h = 1, shape_w = 2, shape_d = 1, elems = (\<lambda>i j k. 7 :: 8 word)\<rparr> \<lparr>shape_h = 2, shape_w = 1, shape_d = 1, elems = (\<lambda>i j k. 9 :: 8 word)\<rparr> of
         Inl e \<Rightarrow> None
       | Inr c \<Rightarrow> Some (shape_h c, shape_w c, shape_d c, at c 0 1 0))
       = Some (2, 3, 1, Some 7)
   \<and> (case vstack_image_arrays (\<lambda>x :: 8 word. x) \<lparr>shape_h = 1, shape_w = 2, shape_d = 1, elems = (\<lambda>i j k. 7 :: 8 word)\<rparr> \<lparr>shape_h = 2, shape_w = 1, shape_d = 1, elems = (\<lambda>i j k. 9 :: 8 word)\<rparr> of
         Inl e \<Rightarrow> None
       | Inr c \<Rightarrow> Some (shape_h c, shape_w c, shape_d c, at c 0 1 0))
       = Some (3, 2, 1, Some 7)"
proof -
  let ?a = "\<lparr>shape_h = 1, shape_w = 2, shape_d = 1, elems = (\<lambda>i j k. 7 :: 8 word)\<rparr>"
  let ?b = "\<lparr>shape_h = 2, shape_w = 1, shape_d = 1, elems = (\<lambda>i j k. 9 :: 8 word)\<rparr>"
  have d: "shape_d ?b = shape_d ?a" by simp
  from stacked_image_layout [OF d, of "(\<lambda>x :: 8 word. x)" 0 1 0]
  obtain c c' where "hstack_image_arrays (\<lambda>x :: 8 word. x) ?a ?b = Inr c"
    and "shape_h c = 2" "shape_w c = 3" "shape_d c = 1" "at c 0 1 0 = Some 7"
    and "vstack_image_arrays (\<lambda>x :: 8 word. x) ?a ?b = Inr c'"
    and "shape_h c' = 3" "shape_w c' = 2" "shape_d c' = 1" "at c' 0 1 0 = Some 7"
    by (auto simp: at_def)
  then show ?thesis by simp
qed

end
